theory Spec2Isabelle
  imports Complex_Main
begin

section \<open>Exceptions and the Python environment\<close>

text \<open>
  The tools of \<^verbatim>\<open>src/agent/tools.py\<close> wrap their bodies in \<^verbatim>\<open>try\<close> blocks whose
  \<^verbatim>\<open>except\<close> clauses are tried in order. An exception is a value; which clause catches
  it is decided by the class tests below. \<^verbatim>\<open>SystemExit\<close> and \<^verbatim>\<open>KeyboardInterrupt\<close> derive
  from \<^verbatim>\<open>BaseException\<close> only, so \<^verbatim>\<open>except Exception\<close> does not catch them.
  \<^verbatim>\<open>RequestsJSONDecodeError\<close> is the exception \<^verbatim>\<open>response.json()\<close> raises in current
  releases of requests: it derives from both \<^verbatim>\<open>RequestException\<close> and
  \<^verbatim>\<open>json.JSONDecodeError\<close>. A \<^verbatim>\<open>ValidationError\<close> carries the text of its
  \<^verbatim>\<open>errors()\<close>.
\<close>

datatype py_exc =
    Timeout
  | ConnectionError
  | HTTPError
  | RequestsJSONDecodeError
  | JSONDecodeError
  | ValidationError string
  | SyntaxError
  | NameError
  | AttributeError
  | KeyError
  | IndexError
  | TypeError
  | ZeroDivisionError
  | ValueError
  | OtherException string
  | SystemExit
  | KeyboardInterrupt

fun is_Timeout :: "py_exc \<Rightarrow> bool" where
  "is_Timeout Timeout = True"
| "is_Timeout _ = False"

fun is_RequestException :: "py_exc \<Rightarrow> bool" where
  "is_RequestException Timeout = True"
| "is_RequestException ConnectionError = True"
| "is_RequestException HTTPError = True"
| "is_RequestException RequestsJSONDecodeError = True"
| "is_RequestException _ = False"

fun is_JSONDecodeError :: "py_exc \<Rightarrow> bool" where
  "is_JSONDecodeError JSONDecodeError = True"
| "is_JSONDecodeError RequestsJSONDecodeError = True"
| "is_JSONDecodeError _ = False"

fun is_ValidationError :: "py_exc \<Rightarrow> bool" where
  "is_ValidationError (ValidationError _) = True"
| "is_ValidationError _ = False"

fun is_Exception :: "py_exc \<Rightarrow> bool" where
  "is_Exception SystemExit = False"
| "is_Exception KeyboardInterrupt = False"
| "is_Exception _ = True"

text \<open>
  A decoded JSON document, as \<^verbatim>\<open>response.json()\<close> returns it: \<^verbatim>\<open>None\<close>, a \<^verbatim>\<open>bool\<close>,
  an \<^verbatim>\<open>int\<close>, a \<^verbatim>\<open>float\<close>, a \<^verbatim>\<open>str\<close>, a \<^verbatim>\<open>list\<close> or a \<^verbatim>\<open>dict\<close> with string keys
  in the order of the document. \<open>'f\<close> is the type of floats, the infinities and NaN
  among them; the source does no arithmetic on them.
\<close>

datatype 'f json =
    JNull
  | JBool bool
  | JInt int
  | JFloat 'f
  | JStr string
  | JArr "'f json list"
  | JObj "(string \<times> 'f json) list"

text \<open>
  What the Python runtime and the pydantic library compute and the source only calls:
  the text of an exception (\<^verbatim>\<open>f"{e}"\<close>), the text of \<^verbatim>\<open>e.errors()\<close> given the fields
  that failed and their inputs, the lax-mode coercions between JSON scalars, the truth
  value of a float and whether it is finite. They are parameters of the model.
\<close>

record 'f pyenv =
  str_exc :: "py_exc \<Rightarrow> string"
  str_errors :: "(string \<times> 'f json) list \<Rightarrow> string"
  float_of_int :: "int \<Rightarrow> 'f option"
  float_of_str :: "string \<Rightarrow> 'f option"
  int_of_float :: "'f \<Rightarrow> int option"
  int_of_str :: "string \<Rightarrow> int option"
  float_truthy :: "'f \<Rightarrow> bool"
  float_finite :: "'f \<Rightarrow> bool"

section \<open>The calculate tool\<close>

text \<open>
  \<^verbatim>\<open>
  def calculate(expression: str) -> str:
      try:
          result = eval(expression)
          return str(result)
      except SyntaxError:
          return "Error: Invalid mathematical expression."
      except NameError:
          return "Error: Invalid input in expression (e.g., non-numeric characters)."
      except Exception as e:
          return f"Error during calculation: {e}"
  \<close>
  \<open>calculate_env\<close> is this function with the body of the \<^verbatim>\<open>try\<close> block,
  \<^verbatim>\<open>str(eval(expression))\<close>, taken from the environment: \<open>ev expression\<close> is the text it
  returns or the exception it raises. \<open>Inl\<close> is an exception that leaves the tool.
\<close>

definition calculate_handler :: "'f pyenv \<Rightarrow> py_exc \<Rightarrow> py_exc + string" where
  "calculate_handler env e =
     (if e = SyntaxError then Inr ''Error: Invalid mathematical expression.''
      else if e = NameError
        then Inr ''Error: Invalid input in expression (e.g., non-numeric characters).''
      else if is_Exception e then Inr (''Error during calculation: '' @ str_exc env e)
      else Inl e)"

definition calculate_env ::
  "'f pyenv \<Rightarrow> (string \<Rightarrow> py_exc + string) \<Rightarrow> string \<Rightarrow> py_exc + string" where
  "calculate_env env ev expression =
     (case ev expression of
        Inr s \<Rightarrow> Inr s
      | Inl e \<Rightarrow> calculate_handler env e)"

subsection \<open>A fragment of Python's expression evaluator\<close>

text \<open>
  \<^verbatim>\<open>eval\<close> is the interpreter's own evaluator. The functions below compute what it does
  on a fragment of Python's expression language: decimal integer literals, plain
  string literals in single quotes, the binary operators \<^verbatim>\<open>+ - * // % **\<close>, unary
  \<^verbatim>\<open>+\<close> and \<^verbatim>\<open>-\<close>, \<^verbatim>\<open>or\<close>, parentheses, names, attribute access, and calls with no
  argument, one or two positional arguments, or one keyword argument. The names are
  \<^verbatim>\<open>expression\<close> (the local variable of \<^verbatim>\<open>calculate\<close>, visible to \<^verbatim>\<open>eval\<close> because no
  namespace is passed), the globals of the module that evaluated expressions have
  bound, and the built-in \<^verbatim>\<open>globals\<close>, \<^verbatim>\<open>exit\<close> and \<^verbatim>\<open>quit\<close> (the last two are the
  objects the \<^verbatim>\<open>site\<close> module installs). \<open>None\<close> means that the input is not in the
  fragment and the model says nothing about it; it never stands for an error.
\<close>

datatype token =
    TInt int | TName string | TStr string
  | TPlus | TMinus | TStar | TDStar | TSlash | TDSlash | TPercent
  | TLParen | TRParen | TComma | TDot | TAssign

datatype lexstate = LIdle | LNum string | LName string | LStr string | LStar | LSlash

definition is_digit :: "char \<Rightarrow> bool" where
  "is_digit c = (48 \<le> (of_char c :: nat) \<and> (of_char c :: nat) \<le> 57)"

definition is_name_start :: "char \<Rightarrow> bool" where
  "is_name_start c =
     ((97 \<le> (of_char c :: nat) \<and> (of_char c :: nat) \<le> 122) \<or>
      (65 \<le> (of_char c :: nat) \<and> (of_char c :: nat) \<le> 90) \<or> c = CHR ''_'')"

definition digit_val :: "char \<Rightarrow> int" where
  "digit_val c = of_char c - 48"

definition int_of_digits :: "string \<Rightarrow> int" where
  "int_of_digits ds = foldl (\<lambda>acc c. 10 * acc + digit_val c) 0 ds"

text \<open>
  A decimal literal: no leading zero before other digits (a syntax error in Python 3),
  and at most 4300 digits (the interpreter's limit on integer conversion).
\<close>

definition literal_token :: "string \<Rightarrow> token option" where
  "literal_token ds =
     (if length ds > 4300 then None
      else if length ds > 1 \<and> hd ds = CHR ''0'' \<and> list_ex (\<lambda>c. c \<noteq> CHR ''0'') ds then None
      else Some (TInt (int_of_digits ds)))"

definition flush :: "lexstate \<Rightarrow> token list option" where
  "flush st =
     (case st of
        LIdle \<Rightarrow> Some []
      | LNum ds \<Rightarrow> map_option (\<lambda>t. [t]) (literal_token ds)
      | LName cs \<Rightarrow> Some [TName cs]
      | LStr cs \<Rightarrow> None
      | LStar \<Rightarrow> Some [TStar]
      | LSlash \<Rightarrow> Some [TSlash])"

definition symbol_token :: "char \<Rightarrow> token option" where
  "symbol_token c =
     (if c = CHR ''+'' then Some TPlus
      else if c = CHR ''-'' then Some TMinus
      else if c = CHR ''%'' then Some TPercent
      else if c = CHR ''('' then Some TLParen
      else if c = CHR '')'' then Some TRParen
      else if c = CHR '','' then Some TComma
      else None)"

definition emit :: "token list option \<Rightarrow> token list option \<Rightarrow> token list option" where
  "emit a b = (case a of None \<Rightarrow> None | Some xs \<Rightarrow> map_option (\<lambda>ys. xs @ ys) b)"

text \<open>
  The characters a string literal of the fragment may hold: letters, digits, the
  underscore and the space. A quote opens a literal only where no name or number
  precedes it (a name before a quote is a string prefix); a dot is an attribute access
  only where no number precedes it and a name follows (otherwise it belongs to a
  float); an equals sign is the sign of a keyword argument unless another one follows.
\<close>

definition is_plain :: "char \<Rightarrow> bool" where
  "is_plain c = (is_digit c \<or> is_name_start c \<or> c = CHR '' '')"

definition quote :: char where
  "quote = CHR 0x27"

fun lex :: "lexstate \<Rightarrow> string \<Rightarrow> token list option" where
  "lex st [] = flush st"
| "lex st (c # cs) =
     (case st of
        LStr s \<Rightarrow>
          (if c = quote then emit (Some [TStr s]) (lex LIdle cs)
           else if is_plain c then lex (LStr (s @ [c])) cs
           else None)
      | _ \<Rightarrow>
     (if is_digit c then
        (case st of
           LNum ds \<Rightarrow> lex (LNum (ds @ [c])) cs
         | LName ns \<Rightarrow> lex (LName (ns @ [c])) cs
         | _ \<Rightarrow> emit (flush st) (lex (LNum [c]) cs))
      else if is_name_start c then
        (case st of
           LNum ds \<Rightarrow> None
         | LName ns \<Rightarrow> lex (LName (ns @ [c])) cs
         | _ \<Rightarrow> emit (flush st) (lex (LName [c]) cs))
      else if c = CHR '' '' then emit (flush st) (lex LIdle cs)
      else if c = CHR ''*'' then
        (case st of
           LStar \<Rightarrow> emit (Some [TDStar]) (lex LIdle cs)
         | _ \<Rightarrow> emit (flush st) (lex LStar cs))
      else if c = CHR ''/'' then
        (case st of
           LSlash \<Rightarrow> emit (Some [TDSlash]) (lex LIdle cs)
         | _ \<Rightarrow> emit (flush st) (lex LSlash cs))
      else if c = quote then
        (case st of
           LNum ds \<Rightarrow> None
         | LName ns \<Rightarrow> None
         | _ \<Rightarrow> emit (flush st) (lex (LStr []) cs))
      else if c = CHR ''.'' then
        (case st of
           LNum ds \<Rightarrow> None
         | _ \<Rightarrow>
             (case cs of
                [] \<Rightarrow> None
              | d # ds \<Rightarrow>
                  (if is_name_start d then emit (flush st) (emit (Some [TDot]) (lex LIdle cs))
                   else None)))
      else if c = CHR ''='' then
        (case cs of
           [] \<Rightarrow> None
         | d # ds \<Rightarrow>
             (if d = CHR ''='' then None
              else emit (flush st) (emit (Some [TAssign]) (lex LIdle cs))))
      else
        (case symbol_token c of
           None \<Rightarrow> None
         | Some t \<Rightarrow> emit (flush st) (emit (Some [t]) (lex LIdle cs)))))"

definition tokenize :: "string \<Rightarrow> token list option" where
  "tokenize s = lex LIdle s"

datatype binop = Add | Sub | Mul | TrueDiv | FloorDiv | Mod | Pow

datatype expr =
    Num int
  | Str string
  | Name string
  | Neg expr
  | Pos expr
  | Bin binop expr expr
  | Or expr expr
  | Attr expr string
  | Call expr
  | Call1 expr expr
  | Call2 expr expr expr
  | CallKw expr string expr

text \<open>The reserved words of Python, none of which is a name.\<close>

definition reserved_words :: "string list" where
  "reserved_words =
     [''False'', ''None'', ''True'', ''and'', ''as'', ''assert'', ''async'', ''await'',
      ''break'', ''class'', ''continue'', ''def'', ''del'', ''elif'', ''else'', ''except'',
      ''finally'', ''for'', ''from'', ''global'', ''if'', ''import'', ''in'', ''is'',
      ''lambda'', ''nonlocal'', ''not'', ''or'', ''pass'', ''raise'', ''return'', ''try'',
      ''while'', ''with'', ''yield'']"

definition is_keyword :: "string \<Rightarrow> bool" where
  "is_keyword x = List.member reserved_words x"

text \<open>
  The parser follows the rules of Python's grammar for these constructs:
  \<^verbatim>\<open>
  disjunction: sum ('or' sum)*
  sum:         sum ('+'|'-') term | term
  term:        term ('*'|'/'|'//'|'%') factor | factor
  factor:      ('+'|'-') factor | power
  power:       primary ['**' factor]
  primary:     primary '.' NAME | primary '(' [arguments] ')' | atom
  arguments:   disjunction [',' disjunction] | NAME '=' disjunction
  atom:        NUMBER | STRING | NAME | '(' disjunction ')'
  \<close>
  (the operands of \<^verbatim>\<open>or\<close> are sums, as no operator between the two levels is in the
  fragment). One function does the work of the rules, told by its second argument
  which rule it is in (the \<open>Rest\<close> rules carry the operand parsed so far). The first
  argument bounds the number of nested calls, so that the recursion is structural;
  running out of it gives \<open>None\<close>, as any input outside the fragment does.
\<close>

definition term_op :: "token \<Rightarrow> binop option" where
  "term_op t =
     (case t of
        TStar \<Rightarrow> Some Mul | TSlash \<Rightarrow> Some TrueDiv | TDSlash \<Rightarrow> Some FloorDiv
      | TPercent \<Rightarrow> Some Mod | _ \<Rightarrow> None)"

definition sum_op :: "token \<Rightarrow> binop option" where
  "sum_op t = (case t of TPlus \<Rightarrow> Some Add | TMinus \<Rightarrow> Some Sub | _ \<Rightarrow> None)"

definition closing :: "expr \<Rightarrow> token list \<Rightarrow> (expr \<times> token list) option" where
  "closing e ts =
     (case ts of
        [] \<Rightarrow> None
      | t # r \<Rightarrow> (if t = TRParen then Some (e, r) else None))"

datatype grammar_rule =
    NDisj | NDisjRest expr | NSum | NSumRest expr | NTerm | NTermRest expr
  | NFactor | NPower | NPrimaryRest expr | NArguments expr | NAtom

primrec parse_nt :: "nat \<Rightarrow> grammar_rule \<Rightarrow> token list \<Rightarrow> (expr \<times> token list) option" where
  "parse_nt 0 k ts = None"
| "parse_nt (Suc n) k ts =
     (case k of
        NDisj \<Rightarrow>
          (case parse_nt n NSum ts of
             None \<Rightarrow> None
           | Some (l, r) \<Rightarrow> parse_nt n (NDisjRest l) r)
      | NDisjRest l \<Rightarrow>
          (case ts of
             [] \<Rightarrow> Some (l, [])
           | t # ts' \<Rightarrow>
               (if t = TName ''or'' then
                  (case parse_nt n NSum ts' of
                     None \<Rightarrow> None
                   | Some (e, r) \<Rightarrow> parse_nt n (NDisjRest (Or l e)) r)
                else Some (l, t # ts')))
      | NSum \<Rightarrow>
          (case parse_nt n NTerm ts of
             None \<Rightarrow> None
           | Some (l, r) \<Rightarrow> parse_nt n (NSumRest l) r)
      | NSumRest l \<Rightarrow>
          (case ts of
             [] \<Rightarrow> Some (l, [])
           | t # ts' \<Rightarrow>
               (case sum_op t of
                  None \<Rightarrow> Some (l, t # ts')
                | Some b \<Rightarrow>
                    (case parse_nt n NTerm ts' of
                       None \<Rightarrow> None
                     | Some (e, r) \<Rightarrow> parse_nt n (NSumRest (Bin b l e)) r)))
      | NTerm \<Rightarrow>
          (case parse_nt n NFactor ts of
             None \<Rightarrow> None
           | Some (l, r) \<Rightarrow> parse_nt n (NTermRest l) r)
      | NTermRest l \<Rightarrow>
          (case ts of
             [] \<Rightarrow> Some (l, [])
           | t # ts' \<Rightarrow>
               (case term_op t of
                  None \<Rightarrow> Some (l, t # ts')
                | Some b \<Rightarrow>
                    (case parse_nt n NFactor ts' of
                       None \<Rightarrow> None
                     | Some (e, r) \<Rightarrow> parse_nt n (NTermRest (Bin b l e)) r)))
      | NFactor \<Rightarrow>
          (case ts of
             [] \<Rightarrow> None
           | t # ts' \<Rightarrow>
               (if t = TMinus then
                  (case parse_nt n NFactor ts' of
                     None \<Rightarrow> None
                   | Some (e, r) \<Rightarrow> Some (Neg e, r))
                else if t = TPlus then
                  (case parse_nt n NFactor ts' of
                     None \<Rightarrow> None
                   | Some (e, r) \<Rightarrow> Some (Pos e, r))
                else parse_nt n NPower ts))
      | NPower \<Rightarrow>
          (case parse_nt n NAtom ts of
             None \<Rightarrow> None
           | Some (a, r) \<Rightarrow>
               (case parse_nt n (NPrimaryRest a) r of
                  None \<Rightarrow> None
                | Some (p, q) \<Rightarrow>
                    (case q of
                       [] \<Rightarrow> Some (p, q)
                     | t # q' \<Rightarrow>
                         (if t = TDStar then
                            (case parse_nt n NFactor q' of
                               None \<Rightarrow> None
                             | Some (e, q'') \<Rightarrow> Some (Bin Pow p e, q''))
                          else Some (p, q)))))
      | NPrimaryRest p \<Rightarrow>
          (case ts of
             [] \<Rightarrow> Some (p, ts)
           | t # ts' \<Rightarrow>
               (if t = TLParen then
                  (case parse_nt n (NArguments p) ts' of
                     None \<Rightarrow> None
                   | Some (c, r) \<Rightarrow> parse_nt n (NPrimaryRest c) r)
                else if t = TDot then
                  (case ts' of
                     TName x # r \<Rightarrow>
                       (if is_keyword x then None else parse_nt n (NPrimaryRest (Attr p x)) r)
                   | _ \<Rightarrow> None)
                else Some (p, ts)))
      | NArguments p \<Rightarrow>
          (case ts of
             [] \<Rightarrow> None
           | t # ts' \<Rightarrow>
               (if t = TRParen then Some (Call p, ts')
                else
                  (case (t, ts') of
                     (TName x, TAssign # r) \<Rightarrow>
                       (if is_keyword x then None
                        else
                          (case parse_nt n NDisj r of
                             None \<Rightarrow> None
                           | Some (e, r') \<Rightarrow> closing (CallKw p x e) r'))
                   | _ \<Rightarrow>
                       (case parse_nt n NDisj ts of
                          None \<Rightarrow> None
                        | Some (a, r) \<Rightarrow>
                            (case r of
                               [] \<Rightarrow> None
                             | t' # r' \<Rightarrow>
                                 (if t' = TRParen then Some (Call1 p a, r')
                                  else if t' = TComma then
                                    (case parse_nt n NDisj r' of
                                       None \<Rightarrow> None
                                     | Some (b, r'') \<Rightarrow> closing (Call2 p a b) r'')
                                  else None))))))
      | NAtom \<Rightarrow>
          (case ts of
             [] \<Rightarrow> None
           | t # ts' \<Rightarrow>
               (case t of
                  TInt i \<Rightarrow> Some (Num i, ts')
                | TStr s \<Rightarrow> Some (Str s, ts')
                | TName x \<Rightarrow> (if is_keyword x then None else Some (Name x, ts'))
                | TLParen \<Rightarrow>
                    (case parse_nt n NDisj ts' of
                       None \<Rightarrow> None
                     | Some (e, r) \<Rightarrow> closing e r)
                | _ \<Rightarrow> None)))"

definition parse_disjunction :: "nat \<Rightarrow> token list \<Rightarrow> (expr \<times> token list) option" where
  "parse_disjunction n ts = parse_nt n NDisj ts"

text \<open>
  The fragment holds texts of at most 200 characters. The interpreter refuses an
  expression with more than 200 nested parentheses as a syntax error; no text this
  short nests that deep.
\<close>

definition parse :: "string \<Rightarrow> expr option" where
  "parse s =
     (if length s > 200 then None
      else
        (case tokenize s of
           None \<Rightarrow> None
         | Some ts \<Rightarrow>
             (case parse_disjunction (12 * length ts + 12) ts of
                Some (e, []) \<Rightarrow> Some e
              | _ \<Rightarrow> None)))"

text \<open>
  The values of the fragment: integers, strings, \<^verbatim>\<open>None\<close>, the object \<^verbatim>\<open>exit\<close>, the
  built-in function \<^verbatim>\<open>globals\<close>, the dictionary it returns (the globals of the module
  \<^verbatim>\<open>agent.tools\<close>, which \<^verbatim>\<open>eval\<close> uses as no namespace is passed), and the bound methods
  \<^verbatim>\<open>get\<close> and \<^verbatim>\<open>update\<close> of that dictionary.

  The state of the interpreter that the fragment reads and writes is that dictionary.
  It is represented by the bindings that evaluated expressions have made in it, the
  latest first. The names the module itself defines, and the names the import system
  sets (they begin with an underscore), have values outside the fragment. The
  fragment holds no binding of such a name, and none of a built-in name that the
  bodies of the tools read (\<^verbatim>\<open>eval\<close>, \<^verbatim>\<open>str\<close>, \<^verbatim>\<open>next\<close>, \<^verbatim>\<open>iter\<close> and the
  exception classes of the \<^verbatim>\<open>except\<close> clauses): a global of that name would take the
  place of the built-in in the tools themselves.
\<close>

datatype py_value =
    PyInt int | PyStr string | PyNone | PyQuitter
  | PyGlobalsFunction | PyGlobals | PyGlobalsMethod string

type_synonym globals = "(string \<times> py_value) list"

definition module_names :: "string list" where
  "module_names =
     [''T'', ''json'', ''requests'', ''tool'', ''BaseModel'', ''Field'', ''ValidationError'',
      ''WikipediaArticle'', ''Coordinates'', ''CurrentWeather'',
      ''get_coordinates_from_city'', ''get_current_weather'', ''search_wikipedia'',
      ''calculate'']"

definition module_defines :: "string \<Rightarrow> bool" where
  "module_defines x = (List.member module_names x \<or> take 1 x = ''_'')"

definition builtins_read :: "string list" where
  "builtins_read =
     [''eval'', ''str'', ''next'', ''iter'', ''SyntaxError'', ''NameError'', ''Exception'']"

definition bindable :: "string \<Rightarrow> bool" where
  "bindable x = (\<not> module_defines x \<and> \<not> List.member builtins_read x)"

definition admissible :: "globals \<Rightarrow> bool" where
  "admissible g = list_all (\<lambda>kv. bindable (fst kv)) g"

text \<open>
  A key of the dictionary: \<open>Some (Some v)\<close> when an expression has bound it to \<open>v\<close>,
  \<open>Some None\<close> when it is absent, \<open>None\<close> when its value is outside the fragment.
\<close>

definition global_binding :: "globals \<Rightarrow> string \<Rightarrow> py_value option option" where
  "global_binding g x = (if module_defines x then None else Some (map_of g x))"

text \<open>
  A name is looked up among the local variables of \<^verbatim>\<open>calculate\<close>, then in the globals,
  then among the built-in names.
\<close>

definition lookup_name :: "globals \<Rightarrow> string \<Rightarrow> string \<Rightarrow> py_value option" where
  "lookup_name g src x =
     (if x = ''expression'' then Some (PyStr src)
      else
        (case global_binding g x of
           None \<Rightarrow> None
         | Some (Some v) \<Rightarrow> Some v
         | Some None \<Rightarrow>
             (if x = ''exit'' \<or> x = ''quit'' then Some PyQuitter
              else if x = ''globals'' then Some PyGlobalsFunction
              else None)))"

definition truthy :: "py_value \<Rightarrow> bool" where
  "truthy v = (case v of PyInt i \<Rightarrow> i \<noteq> 0 | PyStr s \<Rightarrow> s \<noteq> [] | PyNone \<Rightarrow> False | _ \<Rightarrow> True)"

text \<open>
  Evaluation: \<open>None\<close> outside the fragment, and otherwise the state after the
  evaluation with \<open>Inl e\<close> when the expression raises \<open>e\<close> and \<open>Inr v\<close> when it has the
  value \<open>v\<close>. Operands and arguments are evaluated from left to right, the callee
  before its arguments, and an exception ends the evaluation. Integer division and
  remainder round towards minus infinity, as \<open>div\<close> and \<open>mod\<close> on \<open>int\<close> do. True
  division and a negative exponent give a float and are left out, as are the zero
  divisors, whose message differs between releases of the interpreter, and the
  results of more than 4300 decimal digits, which the interpreter may be unable to
  compute and refuses to convert to text.
\<close>

type_synonym 'a outcome = "((py_exc + 'a) \<times> globals) option"

fun digits :: "nat \<Rightarrow> string" where
  "digits n =
     (if n < 10 then [char_of (48 + n)]
      else digits (n div 10) @ [char_of (48 + n mod 10)])"

definition small :: "int \<Rightarrow> (py_exc + py_value) option" where
  "small i = (if length (digits (nat \<bar>i\<bar>)) > 4300 then None else Some (Inr (PyInt i)))"

definition eval_binop :: "binop \<Rightarrow> py_value \<Rightarrow> py_value \<Rightarrow> (py_exc + py_value) option" where
  "eval_binop b x y =
     (case (x, y) of
        (PyInt i, PyInt j) \<Rightarrow>
          (case b of
             Add \<Rightarrow> small (i + j)
           | Sub \<Rightarrow> small (i - j)
           | Mul \<Rightarrow> small (i * j)
           | TrueDiv \<Rightarrow> None
           | FloorDiv \<Rightarrow> (if j = 0 then None else small (i div j))
           | Mod \<Rightarrow> (if j = 0 then None else small (i mod j))
           | Pow \<Rightarrow> (if j < 0 then None else small (i ^ nat j)))
      | _ \<Rightarrow> None)"

definition and_then :: "py_value outcome \<Rightarrow> (py_value \<Rightarrow> globals \<Rightarrow> 'a outcome) \<Rightarrow> 'a outcome" where
  "and_then m f =
     (case m of
        None \<Rightarrow> None
      | Some (Inl x, g) \<Rightarrow> Some (Inl x, g)
      | Some (Inr v, g) \<Rightarrow> f v g)"

definition returns :: "globals \<Rightarrow> (py_exc + py_value) option \<Rightarrow> py_value outcome" where
  "returns g r = map_option (\<lambda>x. (x, g)) r"

text \<open>
  \<^verbatim>\<open>globals().get(k)\<close> and \<^verbatim>\<open>globals().get(k, d)\<close>: the keys of the dictionary are
  strings, so an integer or \<^verbatim>\<open>None\<close> is never found.
\<close>

definition globals_get :: "globals \<Rightarrow> py_value \<Rightarrow> py_value \<Rightarrow> py_value outcome" where
  "globals_get g k d =
     (case k of
        PyStr s \<Rightarrow>
          (case global_binding g s of
             None \<Rightarrow> None
           | Some (Some v) \<Rightarrow> Some (Inr v, g)
           | Some None \<Rightarrow> Some (Inr d, g))
      | PyInt i \<Rightarrow> Some (Inr d, g)
      | PyNone \<Rightarrow> Some (Inr d, g)
      | _ \<Rightarrow> None)"

definition call0 :: "py_value \<Rightarrow> globals \<Rightarrow> py_value outcome" where
  "call0 f g =
     (case f of
        PyQuitter \<Rightarrow> Some (Inl SystemExit, g)
      | PyGlobalsFunction \<Rightarrow> Some (Inr PyGlobals, g)
      | PyGlobalsMethod m \<Rightarrow> (if m = ''update'' then Some (Inr PyNone, g) else None)
      | _ \<Rightarrow> None)"

definition call1 :: "py_value \<Rightarrow> py_value \<Rightarrow> globals \<Rightarrow> py_value outcome" where
  "call1 f a g =
     (case f of
        PyGlobalsMethod m \<Rightarrow> (if m = ''get'' then globals_get g a PyNone else None)
      | _ \<Rightarrow> None)"

definition call2 :: "py_value \<Rightarrow> py_value \<Rightarrow> py_value \<Rightarrow> globals \<Rightarrow> py_value outcome" where
  "call2 f a b g =
     (case f of
        PyGlobalsMethod m \<Rightarrow> (if m = ''get'' then globals_get g a b else None)
      | _ \<Rightarrow> None)"

definition call_kw :: "py_value \<Rightarrow> string \<Rightarrow> py_value \<Rightarrow> globals \<Rightarrow> py_value outcome" where
  "call_kw f k v g =
     (case f of
        PyGlobalsMethod m \<Rightarrow>
          (if m = ''update'' \<and> bindable k then Some (Inr PyNone, (k, v) # g) else None)
      | _ \<Rightarrow> None)"

definition get_attr :: "py_value \<Rightarrow> string \<Rightarrow> py_value option" where
  "get_attr v x =
     (case v of
        PyGlobals \<Rightarrow> (if x = ''get'' \<or> x = ''update'' then Some (PyGlobalsMethod x) else None)
      | _ \<Rightarrow> None)"

fun eval_expr :: "globals \<Rightarrow> string \<Rightarrow> expr \<Rightarrow> py_value outcome" where
  "eval_expr g src (Num i) = Some (Inr (PyInt i), g)"
| "eval_expr g src (Str s) = Some (Inr (PyStr s), g)"
| "eval_expr g src (Name x) = returns g (map_option Inr (lookup_name g src x))"
| "eval_expr g src (Neg e) =
     and_then (eval_expr g src e)
       (\<lambda>v g'. case v of PyInt i \<Rightarrow> Some (Inr (PyInt (- i)), g') | _ \<Rightarrow> None)"
| "eval_expr g src (Pos e) =
     and_then (eval_expr g src e)
       (\<lambda>v g'. case v of PyInt i \<Rightarrow> Some (Inr (PyInt i), g') | _ \<Rightarrow> None)"
| "eval_expr g src (Bin b l r) =
     and_then (eval_expr g src l)
       (\<lambda>u g'. and_then (eval_expr g' src r) (\<lambda>v g''. returns g'' (eval_binop b u v)))"
| "eval_expr g src (Or l r) =
     and_then (eval_expr g src l)
       (\<lambda>u g'. if truthy u then Some (Inr u, g') else eval_expr g' src r)"
| "eval_expr g src (Attr e x) =
     and_then (eval_expr g src e) (\<lambda>v g'. returns g' (map_option Inr (get_attr v x)))"
| "eval_expr g src (Call f) = and_then (eval_expr g src f) call0"
| "eval_expr g src (Call1 f a) =
     and_then (eval_expr g src f)
       (\<lambda>fv g'. and_then (eval_expr g' src a) (call1 fv))"
| "eval_expr g src (Call2 f a b) =
     and_then (eval_expr g src f)
       (\<lambda>fv g'. and_then (eval_expr g' src a)
          (\<lambda>av g''. and_then (eval_expr g'' src b) (call2 fv av)))"
| "eval_expr g src (CallKw f k e) =
     and_then (eval_expr g src f)
       (\<lambda>fv g'. and_then (eval_expr g' src e) (call_kw fv k))"

definition str_int :: "int \<Rightarrow> string" where
  "str_int i = (if i < 0 then CHR ''-'' # digits (nat (- i)) else digits (nat i))"

definition py_str :: "py_value \<Rightarrow> string option" where
  "py_str v =
     (case v of
        PyInt i \<Rightarrow> (if length (digits (nat \<bar>i\<bar>)) > 4300 then None else Some (str_int i))
      | PyStr s \<Rightarrow> Some s
      | PyNone \<Rightarrow> Some ''None''
      | _ \<Rightarrow> None)"

text \<open>\<^verbatim>\<open>str(eval(expression))\<close> in the state \<open>g\<close>.\<close>

definition py_eval_str :: "globals \<Rightarrow> string \<Rightarrow> string outcome" where
  "py_eval_str g src =
     (case parse src of
        None \<Rightarrow> None
      | Some e \<Rightarrow>
          and_then (eval_expr g src e)
            (\<lambda>v g'. map_option (\<lambda>s. (Inr s, g')) (py_str v)))"

text \<open>
  \<open>calculate_in\<close> is \<^verbatim>\<open>calculate\<close> on the fragment, in a state of the interpreter: its
  result and the state it leaves, or \<open>None\<close> where the fragment does not cover the
  input or the state. \<open>calculate\<close> is the result with the globals as the module
  defines them.
\<close>

definition calculate_in ::
  "'f pyenv \<Rightarrow> globals \<Rightarrow> string \<Rightarrow> ((py_exc + string) \<times> globals) option" where
  "calculate_in env g expression =
     (if admissible g
      then map_option (\<lambda>(r, g'). (calculate_env env (\<lambda>_. r) expression, g'))
             (py_eval_str g expression)
      else None)"

definition calculate :: "'f pyenv \<Rightarrow> string \<Rightarrow> (py_exc + string) option" where
  "calculate env expression = map_option fst (calculate_in env [] expression)"


section \<open>Python operations on decoded JSON\<close>

definition try_then :: "py_exc + 'a \<Rightarrow> ('a \<Rightarrow> py_exc + 'b) \<Rightarrow> py_exc + 'b" where
  "try_then m f = (case m of Inl e \<Rightarrow> Inl e | Inr x \<Rightarrow> f x)"

fun starts_with :: "'a list \<Rightarrow> 'a list \<Rightarrow> bool" where
  "starts_with [] ys = True"
| "starts_with (x # xs) [] = False"
| "starts_with (x # xs) (y # ys) = (x = y \<and> starts_with xs ys)"

fun contains_sub :: "'a list \<Rightarrow> 'a list \<Rightarrow> bool" where
  "contains_sub n [] = (n = [])"
| "contains_sub n (y # ys) = (starts_with n (y # ys) \<or> contains_sub n ys)"

text \<open>Truth value of an object, as \<^verbatim>\<open>if not x\<close> tests it.\<close>

definition py_truthy :: "'f pyenv \<Rightarrow> 'f json \<Rightarrow> bool" where
  "py_truthy env v =
     (case v of
        JNull \<Rightarrow> False
      | JBool b \<Rightarrow> b
      | JInt i \<Rightarrow> i \<noteq> 0
      | JFloat x \<Rightarrow> float_truthy env x
      | JStr s \<Rightarrow> s \<noteq> []
      | JArr xs \<Rightarrow> xs \<noteq> []
      | JObj kvs \<Rightarrow> kvs \<noteq> [])"

text \<open>\<^verbatim>\<open>x.get(k, d)\<close>: only a \<^verbatim>\<open>dict\<close> has the method.\<close>

definition py_get_default :: "'f json \<Rightarrow> string \<Rightarrow> 'f json \<Rightarrow> py_exc + 'f json" where
  "py_get_default x k d =
     (case x of
        JObj kvs \<Rightarrow> Inr (case map_of kvs k of None \<Rightarrow> d | Some v \<Rightarrow> v)
      | _ \<Rightarrow> Inl AttributeError)"

definition py_get :: "'f json \<Rightarrow> string \<Rightarrow> py_exc + 'f json" where
  "py_get x k = py_get_default x k JNull"

text \<open>
  \<^verbatim>\<open>k in x\<close> for a string \<open>k\<close>: a key of a \<^verbatim>\<open>dict\<close>, an element of a \<^verbatim>\<open>list\<close>, a
  substring of a \<^verbatim>\<open>str\<close>; the other objects are not containers.
\<close>

definition py_in :: "string \<Rightarrow> 'f json \<Rightarrow> py_exc + bool" where
  "py_in k x =
     (case x of
        JObj kvs \<Rightarrow> Inr (k \<in> set (map fst kvs))
      | JArr xs \<Rightarrow> Inr (JStr k \<in> set xs)
      | JStr s \<Rightarrow> Inr (contains_sub k s)
      | _ \<Rightarrow> Inl TypeError)"

definition py_index :: "'a list \<Rightarrow> int \<Rightarrow> py_exc + 'a" where
  "py_index xs i =
     (if 0 \<le> i \<and> i < int (length xs) then Inr (xs ! nat i)
      else if i < 0 \<and> - i \<le> int (length xs) then Inr (xs ! nat (int (length xs) + i))
      else Inl IndexError)"

text \<open>
  \<^verbatim>\<open>x[key]\<close>. The keys of a decoded \<^verbatim>\<open>dict\<close> are strings, so another hashable key is
  never found; a \<^verbatim>\<open>list\<close> or a \<^verbatim>\<open>str\<close> is indexed by an \<^verbatim>\<open>int\<close> (a \<^verbatim>\<open>bool\<close> is
  one), negative indices counting from the end.
\<close>

definition py_getitem :: "'f json \<Rightarrow> 'f json \<Rightarrow> py_exc + 'f json" where
  "py_getitem x key =
     (case x of
        JObj kvs \<Rightarrow>
          (case key of
             JStr k \<Rightarrow> (case map_of kvs k of None \<Rightarrow> Inl KeyError | Some v \<Rightarrow> Inr v)
           | JArr _ \<Rightarrow> Inl TypeError
           | JObj _ \<Rightarrow> Inl TypeError
           | _ \<Rightarrow> Inl KeyError)
      | JArr xs \<Rightarrow>
          (case key of
             JInt i \<Rightarrow> py_index xs i
           | JBool b \<Rightarrow> py_index xs (if b then 1 else 0)
           | _ \<Rightarrow> Inl TypeError)
      | JStr s \<Rightarrow>
          (case key of
             JInt i \<Rightarrow> map_sum id (\<lambda>c. JStr [c]) (py_index s i)
           | JBool b \<Rightarrow> map_sum id (\<lambda>c. JStr [c]) (py_index s (if b then 1 else 0))
           | _ \<Rightarrow> Inl TypeError)
      | _ \<Rightarrow> Inl TypeError)"

text \<open>\<^verbatim>\<open>next(iter(x))\<close> on an object that is not empty.\<close>

definition py_first :: "'f json \<Rightarrow> py_exc + 'f json" where
  "py_first x =
     (case x of
        JObj ((k, v) # _) \<Rightarrow> Inr (JStr k)
      | JArr (y # _) \<Rightarrow> Inr y
      | JStr (c # _) \<Rightarrow> Inr (JStr [c])
      | JObj [] \<Rightarrow> Inl (OtherException ''StopIteration'')
      | JArr [] \<Rightarrow> Inl (OtherException ''StopIteration'')
      | JStr [] \<Rightarrow> Inl (OtherException ''StopIteration'')
      | _ \<Rightarrow> Inl TypeError)"

section \<open>The pydantic models\<close>

text \<open>
  A field declared \<^verbatim>\<open>float\<close>, \<^verbatim>\<open>int\<close> or \<^verbatim>\<open>str\<close> with \<^verbatim>\<open>Field(description=...)\<close> is
  required and validated in lax mode: a \<^verbatim>\<open>float\<close> field takes a float, an int, a bool
  or a numeric string; an \<^verbatim>\<open>int\<close> field takes an int, a bool, a float without
  fractional part or a numeric string; a \<^verbatim>\<open>str\<close> field takes a string only.
  \<^verbatim>\<open>None\<close> is rejected by all three. Keys that are not fields are ignored.
\<close>

definition validate_float :: "'f pyenv \<Rightarrow> 'f json \<Rightarrow> 'f option" where
  "validate_float env v =
     (case v of
        JFloat x \<Rightarrow> Some x
      | JInt i \<Rightarrow> float_of_int env i
      | JBool b \<Rightarrow> float_of_int env (if b then 1 else 0)
      | JStr s \<Rightarrow> float_of_str env s
      | _ \<Rightarrow> None)"

definition validate_int :: "'f pyenv \<Rightarrow> 'f json \<Rightarrow> int option" where
  "validate_int env v =
     (case v of
        JInt i \<Rightarrow> Some i
      | JBool b \<Rightarrow> Some (if b then 1 else 0)
      | JFloat x \<Rightarrow> int_of_float env x
      | JStr s \<Rightarrow> int_of_str env s
      | _ \<Rightarrow> None)"

definition validate_str :: "'f json \<Rightarrow> string option" where
  "validate_str v = (case v of JStr s \<Rightarrow> Some s | _ \<Rightarrow> None)"

text \<open>
  The keyword arguments of a model constructor: a field that is not passed is missing,
  which fails like any other invalid input.
\<close>

definition failing :: "(string \<times> 'f json) list \<Rightarrow> string \<Rightarrow> bool \<Rightarrow> (string \<times> 'f json) list" where
  "failing kwargs k ok =
     (if ok then [] else [(k, case map_of kwargs k of None \<Rightarrow> JNull | Some v \<Rightarrow> v)])"

definition field_float :: "'f pyenv \<Rightarrow> (string \<times> 'f json) list \<Rightarrow> string \<Rightarrow> 'f option" where
  "field_float env kwargs k =
     (case map_of kwargs k of None \<Rightarrow> None | Some v \<Rightarrow> validate_float env v)"

definition field_int :: "'f pyenv \<Rightarrow> (string \<times> 'f json) list \<Rightarrow> string \<Rightarrow> int option" where
  "field_int env kwargs k =
     (case map_of kwargs k of None \<Rightarrow> None | Some v \<Rightarrow> validate_int env v)"

definition field_str :: "(string \<times> 'f json) list \<Rightarrow> string \<Rightarrow> string option" where
  "field_str kwargs k =
     (case map_of kwargs k of None \<Rightarrow> None | Some v \<Rightarrow> validate_str v)"

record 'f Coordinates =
  coord_latitude :: 'f
  coord_longitude :: 'f

record 'f CurrentWeather =
  latitude :: 'f
  longitude :: 'f
  temperature :: 'f
  wind_speed :: 'f
  relative_humidity_2m :: 'f
  is_day :: int
  weather_code :: int
  time :: string

record WikipediaArticle =
  title :: string
  summary :: string
  url :: string

definition Coordinates ::
  "'f pyenv \<Rightarrow> (string \<times> 'f json) list \<Rightarrow> py_exc + 'f Coordinates" where
  "Coordinates env kwargs =
     (case (field_float env kwargs ''latitude'', field_float env kwargs ''longitude'') of
        (Some la, Some lo) \<Rightarrow> Inr \<lparr>coord_latitude = la, coord_longitude = lo\<rparr>
      | (la, lo) \<Rightarrow>
          Inl (ValidationError (str_errors env
            (failing kwargs ''latitude'' (la \<noteq> None) @
             failing kwargs ''longitude'' (lo \<noteq> None)))))"

definition CurrentWeather ::
  "'f pyenv \<Rightarrow> (string \<times> 'f json) list \<Rightarrow> py_exc + 'f CurrentWeather" where
  "CurrentWeather env kwargs =
     (case (field_float env kwargs ''latitude'', field_float env kwargs ''longitude'',
            field_float env kwargs ''temperature'', field_float env kwargs ''wind_speed'',
            field_float env kwargs ''relative_humidity_2m'',
            field_int env kwargs ''is_day'', field_int env kwargs ''weather_code'',
            field_str kwargs ''time'') of
        (Some la, Some lo, Some te, Some wi, Some hu, Some da, Some co, Some ti) \<Rightarrow>
          Inr \<lparr>latitude = la, longitude = lo, temperature = te, wind_speed = wi,
               relative_humidity_2m = hu, is_day = da, weather_code = co, time = ti\<rparr>
      | (la, lo, te, wi, hu, da, co, ti) \<Rightarrow>
          Inl (ValidationError (str_errors env
            (failing kwargs ''latitude'' (la \<noteq> None) @
             failing kwargs ''longitude'' (lo \<noteq> None) @
             failing kwargs ''temperature'' (te \<noteq> None) @
             failing kwargs ''wind_speed'' (wi \<noteq> None) @
             failing kwargs ''relative_humidity_2m'' (hu \<noteq> None) @
             failing kwargs ''is_day'' (da \<noteq> None) @
             failing kwargs ''weather_code'' (co \<noteq> None) @
             failing kwargs ''time'' (ti \<noteq> None)))))"

definition WikipediaArticle ::
  "'f pyenv \<Rightarrow> (string \<times> 'f json) list \<Rightarrow> py_exc + WikipediaArticle" where
  "WikipediaArticle env kwargs =
     (case (field_str kwargs ''title'', field_str kwargs ''summary'', field_str kwargs ''url'') of
        (Some t, Some s, Some u) \<Rightarrow> Inr \<lparr>title = t, summary = s, url = u\<rparr>
      | (t, s, u) \<Rightarrow>
          Inl (ValidationError (str_errors env
            (failing kwargs ''title'' (t \<noteq> None) @
             failing kwargs ''summary'' (s \<noteq> None) @
             failing kwargs ''url'' (u \<noteq> None)))))"

text \<open>
  \<^verbatim>\<open>model_dump_json()\<close>: the JSON document of a model, one member per field in the
  order of declaration. A float that is not finite (an infinity or NaN) is written as
  \<^verbatim>\<open>null\<close>.
\<close>

definition dump_float :: "'f pyenv \<Rightarrow> 'f \<Rightarrow> 'f json" where
  "dump_float env x = (if float_finite env x then JFloat x else JNull)"

definition dump_Coordinates :: "'f pyenv \<Rightarrow> 'f Coordinates \<Rightarrow> 'f json" where
  "dump_Coordinates env c =
     JObj [(''latitude'', dump_float env (coord_latitude c)),
           (''longitude'', dump_float env (coord_longitude c))]"

definition dump_CurrentWeather :: "'f pyenv \<Rightarrow> 'f CurrentWeather \<Rightarrow> 'f json" where
  "dump_CurrentWeather env w =
     JObj [(''latitude'', dump_float env (latitude w)),
           (''longitude'', dump_float env (longitude w)),
           (''temperature'', dump_float env (temperature w)),
           (''wind_speed'', dump_float env (wind_speed w)),
           (''relative_humidity_2m'', dump_float env (relative_humidity_2m w)),
           (''is_day'', JInt (is_day w)), (''weather_code'', JInt (weather_code w)),
           (''time'', JStr (time w))]"

definition dump_WikipediaArticle :: "WikipediaArticle \<Rightarrow> 'f json" where
  "dump_WikipediaArticle a =
     JObj [(''title'', JStr (title a)), (''summary'', JStr (summary a)), (''url'', JStr (url a))]"

section \<open>The three tools that call a service\<close>

text \<open>
  A request is the URL and the query parameters passed to \<^verbatim>\<open>requests.get\<close> (the
  timeout is 30 seconds in all three tools). The service is a function \<open>fetch\<close> from
  the request to the outcome of the three lines
  \<^verbatim>\<open>
  response = requests.get(URL, params=params, timeout=30)
  response.raise_for_status()
  data = response.json()
  \<close>
  which is the decoded document or the exception one of them raises. A tool returns
  \<open>Inr d\<close> when it returns the text of the JSON document \<open>d\<close>, and \<open>Inl e\<close> when the
  exception \<open>e\<close> leaves it.
\<close>

record 'f request =
  req_url :: string
  req_params :: "(string \<times> 'f json) list"

type_synonym 'f service = "'f request \<Rightarrow> py_exc + 'f json"

definition error_payload :: "string \<Rightarrow> 'f json" where
  "error_payload msg = JObj [(''error'', JStr msg)]"

text \<open>
  The five \<^verbatim>\<open>except\<close> clauses the three tools share, in the order of the source; the
  tools differ in the texts only.
\<close>

definition except_clauses ::
  "'f pyenv \<Rightarrow> string \<Rightarrow> string \<Rightarrow> string \<Rightarrow> string \<Rightarrow> string \<Rightarrow> py_exc \<Rightarrow> py_exc + 'f json" where
  "except_clauses env timed_out connecting decoding validating unexpected e =
     (if is_Timeout e then Inr (error_payload timed_out)
      else if is_RequestException e then Inr (error_payload (connecting @ str_exc env e))
      else if is_JSONDecodeError e then Inr (error_payload decoding)
      else if is_ValidationError e then
        (case e of
           ValidationError errors \<Rightarrow> Inr (error_payload (validating @ errors))
         | _ \<Rightarrow> Inl e)
      else if is_Exception e then Inr (error_payload (unexpected @ str_exc env e))
      else Inl e)"

definition try_except :: "py_exc + 'a \<Rightarrow> (py_exc \<Rightarrow> py_exc + 'a) \<Rightarrow> py_exc + 'a" where
  "try_except body handler = (case body of Inl e \<Rightarrow> handler e | Inr x \<Rightarrow> Inr x)"

definition geocoding_request :: "string \<Rightarrow> 'f request" where
  "geocoding_request city_name =
     \<lparr>req_url = ''https://geocoding-api.open-meteo.com/v1/search'',
      req_params = [(''name'', JStr city_name), (''count'', JInt 1),
                    (''language'', JStr ''en''), (''format'', JStr ''json'')]\<rparr>"

definition get_coordinates_from_city ::
  "'f pyenv \<Rightarrow> 'f service \<Rightarrow> string \<Rightarrow> py_exc + 'f json" where
  "get_coordinates_from_city env fetch city_name =
     try_except
       (try_then (fetch (geocoding_request city_name)) (\<lambda>data.
        try_then (py_get data ''results'') (\<lambda>results.
        if \<not> py_truthy env results then
          Inr (error_payload (''Could not find coordinates for city: '' @ city_name))
        else
        try_then (py_getitem results (JInt 0)) (\<lambda>top_result.
        try_then (py_get top_result ''name'') (\<lambda>name.
        try_then (py_get top_result ''latitude'') (\<lambda>la.
        try_then (py_get top_result ''longitude'') (\<lambda>lo.
        try_then (py_get top_result ''country'') (\<lambda>country.
        try_then (Coordinates env
                   [(''name'', name), (''latitude'', la), (''longitude'', lo),
                    (''country'', country)]) (\<lambda>validated_result.
        Inr (dump_Coordinates env validated_result))))))))))
       (except_clauses env
          ''Geocoding API request timed out.''
          ''Error connecting to Geocoding API: ''
          ''Failed to decode JSON response from Geocoding API.''
          ''Failed to validate coordinates schema: ''
          ''An unexpected error occurred during coordinate retrieval: '')"

definition weather_request :: "'f \<Rightarrow> 'f \<Rightarrow> 'f request" where
  "weather_request la lo =
     \<lparr>req_url = ''https://api.open-meteo.com/v1/forecast'',
      req_params = [(''latitude'', JFloat la), (''longitude'', JFloat lo),
                    (''current'',
                     JStr ''temperature_2m,relative_humidity_2m,is_day,wind_speed_10m,weather_code''),
                    (''timezone'', JStr ''auto''), (''forecast_days'', JInt 1)]\<rparr>"

definition get_current_weather ::
  "'f pyenv \<Rightarrow> 'f service \<Rightarrow> 'f \<Rightarrow> 'f \<Rightarrow> py_exc + 'f json" where
  "get_current_weather env fetch la lo =
     try_except
       (try_then (fetch (weather_request la lo)) (\<lambda>data.
        try_then (py_in ''current'' data) (\<lambda>present.
        if \<not> present then
          Inr (error_payload ''No current weather data available for this location.'')
        else
        try_then (py_getitem data (JStr ''current'')) (\<lambda>current_data.
        try_then (py_get current_data ''temperature_2m'') (\<lambda>te.
        try_then (py_get current_data ''wind_speed_10m'') (\<lambda>wi.
        try_then (py_get current_data ''relative_humidity_2m'') (\<lambda>hu.
        try_then (py_get current_data ''is_day'') (\<lambda>da.
        try_then (py_get current_data ''weather_code'') (\<lambda>co.
        try_then (py_get current_data ''time'') (\<lambda>ti.
        try_then (CurrentWeather env
                   [(''latitude'', JFloat la), (''longitude'', JFloat lo),
                    (''temperature'', te), (''wind_speed'', wi),
                    (''relative_humidity_2m'', hu), (''is_day'', da),
                    (''weather_code'', co), (''time'', ti)]) (\<lambda>validated_weather.
        Inr (dump_CurrentWeather env validated_weather))))))))))))
       (except_clauses env
          ''Weather API request timed out.''
          ''Error connecting to Weather API: ''
          ''Failed to decode JSON response from Weather API.''
          ''Failed to validate weather data schema: ''
          ''An unexpected error occurred during weather retrieval: '')"

definition wikipedia_request :: "string \<Rightarrow> 'f request" where
  "wikipedia_request query =
     \<lparr>req_url = ''https://en.wikipedia.org/w/api.php'',
      req_params = [(''action'', JStr ''query''), (''format'', JStr ''json''),
                    (''titles'', JStr query), (''prop'', JStr ''extracts|info''),
                    (''exintro'', JBool True), (''explaintext'', JBool True),
                    (''inprop'', JStr ''url''), (''redirects'', JInt 1)]\<rparr>"

definition search_wikipedia ::
  "'f pyenv \<Rightarrow> 'f service \<Rightarrow> string \<Rightarrow> py_exc + 'f json" where
  "search_wikipedia env fetch query =
     try_except
       (try_then (fetch (wikipedia_request query)) (\<lambda>data.
        try_then (py_get_default data ''query'' (JObj [])) (\<lambda>q.
        try_then (py_get_default q ''pages'' (JObj [])) (\<lambda>pages.
        if \<not> py_truthy env pages then
          Inr (error_payload ''No wikipedia article found for the query'')
        else
        try_then (py_first pages) (\<lambda>page_id.
        try_then (py_getitem pages page_id) (\<lambda>page_data.
        try_then (py_in ''missing'' page_data) (\<lambda>missing.
        if missing then
          Inr (error_payload ''No wikipedia article found the query'')
        else
        try_then (py_get page_data ''title'') (\<lambda>t.
        try_then (py_in ''summary'' page_data) (\<lambda>has_summary.
        try_then (if has_summary then py_get page_data ''summary''
                  else py_get page_data ''extract'') (\<lambda>s.
        try_then (py_get page_data ''fullurl'') (\<lambda>u.
        try_then (WikipediaArticle env
                   [(''title'', t), (''summary'', s), (''url'', u)]) (\<lambda>validated_result.
        Inr (dump_WikipediaArticle validated_result)))))))))))))
       (except_clauses env
          ''Wikipedia API request timed out.''
          ''Error connecting to Wikipedia API: ''
          ''Failed to decode JSON response from Wikipedia API.''
          ''Failed to validate Wikipedia article schema: ''
          ''An unexpected error occurred during Wikipedia search: '')"

section \<open>The agent\<close>

text \<open>
  The transcript of \<^verbatim>\<open>src/agent/agent.py\<close> is a list of messages. A tool call has the
  name of the tool, its arguments and an identifier; a tool message carries the text
  the tool returned, the name of the tool and the identifier of the call it answers.
\<close>

record 'a tool_call =
  tc_name :: string
  tc_args :: 'a
  tc_id :: string

datatype 'a message =
    HumanMessage string
  | AIMessage string "'a tool_call list"
  | ToolMessage string string string

fun content :: "'a message \<Rightarrow> string" where
  "content (HumanMessage c) = c"
| "content (AIMessage c tcs) = c"
| "content (ToolMessage c n i) = c"

text \<open>
  The agent holds the language model and the tools. The model is a function from the
  transcript to the response (the text and the tool calls of an \<^verbatim>\<open>AIMessage\<close>) or the
  exception the call raises; \<open>run_tool\<close> is what the \<^verbatim>\<open>ToolNode\<close> of the library
  makes of one call: the text of the tool message, or an exception it lets through.
  Two properties of the library are fields too: the number of steps after which the
  graph raises \<^verbatim>\<open>GraphRecursionError\<close> (25 unless configured), and whether the stream
  ends with an \<^verbatim>\<open>__end__\<close> chunk holding the final state, as early releases did.
\<close>

record 'a LLMAgent =
  llm_with_tools :: "'a message list \<Rightarrow> py_exc + string \<times> 'a tool_call list"
  run_tool :: "'a tool_call \<Rightarrow> py_exc + string"
  recursion_limit :: nat
  emits_end :: bool

text \<open>
  \<^verbatim>\<open>
  def _call_model(self, state):
      messages = state["messages"]
      response = self.llm_with_tools.invoke(messages)
      return {"messages": [response]}
  \<close>
\<close>

definition call_model :: "'a LLMAgent \<Rightarrow> 'a message list \<Rightarrow> py_exc + 'a message list" where
  "call_model agent messages =
     (case llm_with_tools agent messages of
        Inl e \<Rightarrow> Inl e
      | Inr (c, tcs) \<Rightarrow> Inr [AIMessage c tcs])"

text \<open>
  \<^verbatim>\<open>
  def _should_continue(self, state):
      last_message = state["messages"][-1]
      if last_message.tool_calls:
          return "tools"
      return END
  \<close>
  Only an \<^verbatim>\<open>AIMessage\<close> has the attribute \<^verbatim>\<open>tool_calls\<close>.
\<close>

datatype node = Agent | Tools

datatype edge = Goto node | END

definition should_continue :: "'a message list \<Rightarrow> py_exc + edge" where
  "should_continue messages =
     (if messages = [] then Inl IndexError
      else
        (case last messages of
           AIMessage c tcs \<Rightarrow> Inr (if tcs \<noteq> [] then Goto Tools else END)
         | _ \<Rightarrow> Inl AttributeError))"

text \<open>
  \<^verbatim>\<open>ToolNode(self.tools)\<close> runs every tool call of the last message, which must be an
  \<^verbatim>\<open>AIMessage\<close>, and returns one tool message per call, in the order of the calls.
\<close>

fun run_tools :: "'a LLMAgent \<Rightarrow> 'a tool_call list \<Rightarrow> py_exc + 'a message list" where
  "run_tools agent [] = Inr []"
| "run_tools agent (tc # tcs) =
     (case run_tool agent tc of
        Inl e \<Rightarrow> Inl e
      | Inr out \<Rightarrow>
          (case run_tools agent tcs of
             Inl e \<Rightarrow> Inl e
           | Inr ms \<Rightarrow> Inr (ToolMessage out (tc_name tc) (tc_id tc) # ms)))"

definition tool_node :: "'a LLMAgent \<Rightarrow> 'a message list \<Rightarrow> py_exc + 'a message list" where
  "tool_node agent messages =
     (if messages = [] then Inl ValueError
      else
        (case last messages of
           AIMessage c tcs \<Rightarrow> run_tools agent tcs
         | _ \<Rightarrow> Inl ValueError))"

text \<open>
  \<^verbatim>\<open>add_messages\<close>, the reducer of \<^verbatim>\<open>AgentState\<close>, appends the messages of an update
  to the transcript (the messages of a run have identifiers of their own).
\<close>

definition add_messages :: "'a message list \<Rightarrow> 'a message list \<Rightarrow> 'a message list" where
  "add_messages left right = left @ right"

text \<open>
  The compiled graph of \<^verbatim>\<open>_build_workflow\<close>: entry point \<^verbatim>\<open>agent\<close>, the conditional edge
  of \<^verbatim>\<open>_should_continue\<close> from \<^verbatim>\<open>agent\<close> to \<^verbatim>\<open>tools\<close> or to the end, and the edge
  from \<^verbatim>\<open>tools\<close> back to \<^verbatim>\<open>agent\<close>. \<open>run_graph agent n nd messages\<close> runs it from node
  \<open>nd\<close> with \<open>n\<close> steps left and returns the chunks it streams (the update of each
  node that ran), the exception that ended the run if one did, and the transcript.
  The library tests its step limit after every step, before it looks whether a node is
  left to run: a run whose last node uses the last step has streamed the chunk of
  that node and raises \<^verbatim>\<open>GraphRecursionError\<close> all the same.
\<close>

datatype 'a chunk =
    AgentChunk "'a message list"
  | ToolsChunk "'a message list"
  | EndChunk "'a message list"

fun run_graph ::
  "'a LLMAgent \<Rightarrow> nat \<Rightarrow> node \<Rightarrow> 'a message list \<Rightarrow>
     'a chunk list \<times> py_exc option \<times> 'a message list" where
  "run_graph agent 0 nd messages =
     ([], Some (OtherException ''GraphRecursionError''), messages)"
| "run_graph agent (Suc n) Agent messages =
     (case call_model agent messages of
        Inl e \<Rightarrow> ([], Some e, messages)
      | Inr update \<Rightarrow>
          (case should_continue (add_messages messages update) of
             Inl e \<Rightarrow> ([], Some e, messages)
           | Inr END \<Rightarrow>
               ([AgentChunk update],
                if n = 0 then Some (OtherException ''GraphRecursionError'') else None,
                add_messages messages update)
           | Inr (Goto nd) \<Rightarrow>
               (case run_graph agent n nd (add_messages messages update) of
                  (chunks, out, final) \<Rightarrow> (AgentChunk update # chunks, out, final))))"
| "run_graph agent (Suc n) Tools messages =
     (case tool_node agent messages of
        Inl e \<Rightarrow> ([], Some e, messages)
      | Inr update \<Rightarrow>
          (case run_graph agent n Agent (add_messages messages update) of
             (chunks, out, final) \<Rightarrow> (ToolsChunk update # chunks, out, final)))"

text \<open>
  \<^verbatim>\<open>self.app.astream(inputs)\<close> with \<^verbatim>\<open>inputs = {"messages": [HumanMessage(content=query)]}\<close>:
  the chunks the iteration yields, and the exception it then raises if the run fails.
\<close>

definition astream :: "'a LLMAgent \<Rightarrow> string \<Rightarrow> 'a chunk list \<times> py_exc option" where
  "astream agent query =
     (case run_graph agent (recursion_limit agent) Agent [HumanMessage query] of
        (chunks, out, final) \<Rightarrow>
          (if emits_end agent \<and> out = None then chunks @ [EndChunk final] else chunks, out))"

definition stream_query :: "'a LLMAgent \<Rightarrow> string \<Rightarrow> 'a chunk list \<times> py_exc option" where
  "stream_query agent query = astream agent query"

text \<open>
  \<^verbatim>\<open>
  async def run_query(self, query):
      inputs = {"messages": [HumanMessage(content=query)]}
      full_response = []
      async for s in self.app.astream(inputs):
          if "__end__" not in s:
              full_response.append(s)
      final_state = full_response[-1]
      final_message = final_state["agent"]["messages"][-1]
      return final_message.content
  \<close>
\<close>

fun is_end_chunk :: "'a chunk \<Rightarrow> bool" where
  "is_end_chunk (EndChunk ms) = True"
| "is_end_chunk _ = False"

fun chunk_messages :: "'a chunk \<Rightarrow> 'a message list" where
  "chunk_messages (AgentChunk ms) = ms"
| "chunk_messages (ToolsChunk ms) = ms"
| "chunk_messages (EndChunk ms) = ms"

definition run_query :: "'a LLMAgent \<Rightarrow> string \<Rightarrow> py_exc + string" where
  "run_query agent query =
     (case astream agent query of
        (chunks, Some e) \<Rightarrow> Inl e
      | (chunks, None) \<Rightarrow>
          (let full_response = filter (\<lambda>s. \<not> is_end_chunk s) chunks
           in if full_response = [] then Inl IndexError
              else
                (case last full_response of
                   AgentChunk ms \<Rightarrow>
                     (if ms = [] then Inl IndexError else Inr (content (last ms)))
                 | _ \<Rightarrow> Inl KeyError)))"

text \<open>
  A tool message answers a tool call when it carries the identifier and the name of
  the call. In a transcript all requests are answered when every tool call of every
  model message has an answer later in the transcript.
\<close>

fun answers :: "'a tool_call \<Rightarrow> 'a message \<Rightarrow> bool" where
  "answers tc (ToolMessage c n i) = (i = tc_id tc \<and> n = tc_name tc)"
| "answers tc _ = False"

fun all_answered :: "'a message list \<Rightarrow> bool" where
  "all_answered [] = True"
| "all_answered (AIMessage c tcs # rest) =
     (list_all (\<lambda>tc. list_ex (answers tc) rest) tcs \<and> all_answered rest)"
| "all_answered (m # rest) = all_answered rest"

fun is_final_answer :: "'a message \<Rightarrow> bool" where
  "is_final_answer (AIMessage c tcs) = (tcs = [])"
| "is_final_answer _ = False"

section \<open>Notions the statements use\<close>

text \<open>
  An outcome is ordinary when it is a value or an exception derived from
  \<^verbatim>\<open>Exception\<close>.
\<close>

definition ordinary :: "py_exc + 'a \<Rightarrow> bool" where
  "ordinary m = (case m of Inl e \<Rightarrow> is_Exception e | Inr x \<Rightarrow> True)"

text \<open>
  The test suite reads a payload back with \<^verbatim>\<open>CurrentWeather(**json.loads(output))\<close>;
  \<^verbatim>\<open>**\<close> needs a mapping.
\<close>

definition parse_CurrentWeather :: "'f pyenv \<Rightarrow> 'f json \<Rightarrow> py_exc + 'f CurrentWeather" where
  "parse_CurrentWeather env p =
     (case p of JObj kwargs \<Rightarrow> CurrentWeather env kwargs | _ \<Rightarrow> Inl TypeError)"

text \<open>The error payload of a failed validation of the weather data.\<close>

definition weather_schema_error :: "'f json \<Rightarrow> bool" where
  "weather_schema_error p =
     (case p of
        JObj [(k, JStr msg)] \<Rightarrow>
          k = ''error'' \<and> starts_with ''Failed to validate weather data schema: '' msg
      | _ \<Rightarrow> False)"

text \<open>The members of the forecast's \<^verbatim>\<open>current\<close> object that the tool reads.\<close>

definition upstream_fields :: "string list" where
  "upstream_fields =
     [''temperature_2m'', ''wind_speed_10m'', ''relative_humidity_2m'', ''is_day'',
      ''weather_code'', ''time'']"

text \<open>\<^verbatim>\<open>str.lower()\<close> on ASCII text.\<close>

definition lower_char :: "char \<Rightarrow> char" where
  "lower_char c =
     (if 65 \<le> (of_char c :: nat) \<and> (of_char c :: nat) \<le> 90 then char_of ((of_char c :: nat) + 32)
      else c)"

definition lower :: "string \<Rightarrow> string" where
  "lower s = map lower_char s"




text \<open>
  An environment for the examples, with rational numbers for floats, all of them
  finite: integers convert exactly, a float without fractional part converts to that
  integer, strings of digits convert to their number (no other string occurs in the
  examples), and the texts of exceptions are placeholders. The general statements
  hold for every environment.
\<close>

definition sample_env :: "rat pyenv" where
  "sample_env =
     \<lparr>str_exc = (\<lambda>e. ''<exception>''),
      str_errors = (\<lambda>errs. ''<errors>''),
      float_of_int = (\<lambda>i. Some (of_int i)),
      float_of_str = (\<lambda>s. if s \<noteq> [] \<and> list_all is_digit s then Some (of_int (int_of_digits s)) else None),
      int_of_float = (\<lambda>x. if of_int \<lfloor>x\<rfloor> = x then Some \<lfloor>x\<rfloor> else None),
      int_of_str = (\<lambda>s. if s \<noteq> [] \<and> list_all is_digit s then Some (int_of_digits s) else None),
      float_truthy = (\<lambda>x. x \<noteq> 0),
      float_finite = (\<lambda>x. True)\<rparr>"

text \<open>
  The same environment with the floats that are not finite: \<^verbatim>\<open>json\<close> decodes
  \<^verbatim>\<open>1e400\<close> to the positive infinity, \<^verbatim>\<open>-1e400\<close> to the negative one and \<^verbatim>\<open>NaN\<close>
  to NaN. They are true, convert to no integer, and are not finite.
\<close>

datatype pyfloat = Finite rat | PosInf | NegInf | NaN

definition ieee_env :: "pyfloat pyenv" where
  "ieee_env =
     \<lparr>str_exc = (\<lambda>e. ''<exception>''),
      str_errors = (\<lambda>errs. ''<errors>''),
      float_of_int = (\<lambda>i. Some (Finite (of_int i))),
      float_of_str = (\<lambda>s. if s \<noteq> [] \<and> list_all is_digit s
                          then Some (Finite (of_int (int_of_digits s))) else None),
      int_of_float = (\<lambda>x. case x of
                          Finite r \<Rightarrow> (if of_int \<lfloor>r\<rfloor> = r then Some \<lfloor>r\<rfloor> else None)
                        | _ \<Rightarrow> None),
      int_of_str = (\<lambda>s. if s \<noteq> [] \<and> list_all is_digit s then Some (int_of_digits s) else None),
      float_truthy = (\<lambda>x. x \<noteq> Finite 0),
      float_finite = (\<lambda>x. case x of Finite r \<Rightarrow> True | _ \<Rightarrow> False)\<rparr>"

text \<open>
  The forecast of the test suite with a temperature beyond the range of a float, and
  the payload the tool makes of it.
\<close>

definition overflow_current :: "pyfloat json" where
  "overflow_current =
     JObj [(''temperature_2m'', JFloat PosInf), (''wind_speed_10m'', JFloat (Finite 12.3)),
           (''relative_humidity_2m'', JInt 75), (''is_day'', JInt 1),
           (''weather_code'', JInt 3), (''time'', JStr ''2025-06-01T10:00Z'')]"

definition overflow_payload :: "pyfloat json" where
  "overflow_payload =
     JObj [(''latitude'', JFloat (Finite 51.5074)), (''longitude'', JFloat (Finite (- 0.1278))),
           (''temperature'', JNull), (''wind_speed'', JFloat (Finite 12.3)),
           (''relative_humidity_2m'', JFloat (Finite 75)),
           (''is_day'', JInt 1), (''weather_code'', JInt 3),
           (''time'', JStr ''2025-06-01T10:00Z'')]"

text \<open>The five floats of a snapshot are finite.\<close>

definition finite_floats :: "'f pyenv \<Rightarrow> 'f CurrentWeather \<Rightarrow> bool" where
  "finite_floats env w =
     (float_finite env (latitude w) \<and> float_finite env (longitude w) \<and>
      float_finite env (temperature w) \<and> float_finite env (wind_speed w) \<and>
      float_finite env (relative_humidity_2m w))"

text \<open>
  The responses of the test suite: the forecast for London, with the coordinates the
  service reports as parameters, and the geocoding and encyclopedia responses.
\<close>

definition london_current :: "rat json" where
  "london_current =
     JObj [(''temperature_2m'', JFloat 15.5), (''wind_speed_10m'', JFloat 12.3),
           (''relative_humidity_2m'', JInt 75), (''is_day'', JInt 1),
           (''weather_code'', JInt 3), (''time'', JStr ''2025-06-01T10:00Z'')]"

definition london_members :: "rat \<Rightarrow> rat \<Rightarrow> (string \<times> rat json) list" where
  "london_members la lo =
     [(''latitude'', JFloat la), (''longitude'', JFloat lo), (''current'', london_current)]"

definition london_forecast :: "rat \<Rightarrow> rat \<Rightarrow> rat json" where
  "london_forecast la lo = JObj (london_members la lo)"

definition london_weather :: "rat CurrentWeather" where
  "london_weather =
     \<lparr>latitude = 51.5074, longitude = - 0.1278, temperature = 15.5, wind_speed = 12.3,
      relative_humidity_2m = 75, is_day = 1, weather_code = 3, time = ''2025-06-01T10:00Z''\<rparr>"

definition no_results :: "(string \<times> rat json) list" where
  "no_results = [(''results'', JArr [])]"

definition missing_page :: "(string \<times> rat json) list" where
  "missing_page = [(''query'', JObj [(''pages'', JObj [(''-1'', JObj [(''missing'', JStr [])])])])]"

text \<open>
  An agent for the examples, after the calculator test: the model asks for the
  \<^verbatim>\<open>calculate\<close> tool on the first round and answers on the second.
\<close>

definition sample_llm :: "string message list \<Rightarrow> py_exc + string \<times> string tool_call list" where
  "sample_llm messages =
     (if length messages = 1
      then Inr ([], [\<lparr>tc_name = ''calculate'', tc_args = ''10 + 5 * 2'', tc_id = ''call_1''\<rparr>])
      else Inr (''The result is 20.'', []))"

definition sample_agent :: "string LLMAgent" where
  "sample_agent =
     \<lparr>llm_with_tools = sample_llm,
      run_tool = (\<lambda>tc. case calculate sample_env (tc_args tc) of
                          Some (Inr s) \<Rightarrow> Inr s
                        | Some (Inl e) \<Rightarrow> Inl e
                        | None \<Rightarrow> Inl (OtherException ''not in the fragment'')),
      recursion_limit = 25,
      emits_end = False\<rparr>"

text \<open>
  An agent whose model asks for the \<^verbatim>\<open>calculate\<close> tool on its first twelve rounds
  and answers on the thirteenth, which is the twenty-fifth step of the graph; the
  tool returns \<^verbatim>\<open>2\<close>.
\<close>

definition looping_llm :: "string message list \<Rightarrow> py_exc + string \<times> string tool_call list" where
  "looping_llm messages =
     (if length messages < 25
      then Inr ([], [\<lparr>tc_name = ''calculate'', tc_args = ''1 + 1'', tc_id = ''call''\<rparr>])
      else Inr (''The result is 2.'', []))"

definition looping_agent :: "string LLMAgent" where
  "looping_agent =
     \<lparr>llm_with_tools = looping_llm,
      run_tool = (\<lambda>tc. Inr ''2''),
      recursion_limit = 25,
      emits_end = False\<rparr>"

section \<open>Exceptions in the bodies of the tools\<close>

lemma try_then_simps [simp]:
  "try_then (Inr x) f = f x" "try_then (Inl e) f = Inl e"
  by (simp_all add: try_then_def)

lemma try_except_simps [simp]:
  "try_except (Inr x) h = Inr x" "try_except (Inl e) h = h e"
  by (simp_all add: try_except_def)

lemma ordinary_simps [simp]:
  "ordinary (Inr x) = True" "ordinary (Inl e) = is_Exception e"
  by (simp_all add: ordinary_def)


lemma ordinary_py_get_default [simp]: "ordinary (py_get_default x k d)"
  by (simp add: py_get_default_def split: json.splits)

lemma ordinary_py_get [simp]: "ordinary (py_get x k)"
  by (simp add: py_get_def)

lemma ordinary_py_in [simp]: "ordinary (py_in k x)"
  by (simp add: py_in_def split: json.splits)

lemma ordinary_py_index [simp]: "ordinary (py_index xs i)"
  by (simp add: py_index_def)

lemma ordinary_map_sum [simp]: "ordinary (map_sum id f m) = ordinary m"
  by (cases m) simp_all

lemma ordinary_py_getitem [simp]: "ordinary (py_getitem x key)"
  by (simp add: py_getitem_def split: json.splits option.splits)

lemma ordinary_py_first [simp]: "ordinary (py_first x)"
  by (simp add: py_first_def split: json.splits list.splits prod.splits)

lemma ordinary_Coordinates [simp]: "ordinary (Coordinates env kw)"
  by (simp add: Coordinates_def split: option.splits)

lemma ordinary_CurrentWeather [simp]: "ordinary (CurrentWeather env kw)"
  by (simp add: CurrentWeather_def split: option.splits)

lemma ordinary_WikipediaArticle [simp]: "ordinary (WikipediaArticle env kw)"
  by (simp add: WikipediaArticle_def split: option.splits)







section \<open>Properties of the tools that call a service\<close>

lemma CurrentWeather_Inr:
  assumes "CurrentWeather env kw = Inr w"
  shows "field_float env kw ''latitude'' = Some (latitude w) \<and>
         field_float env kw ''longitude'' = Some (longitude w) \<and>
         field_float env kw ''temperature'' = Some (temperature w) \<and>
         field_float env kw ''wind_speed'' = Some (wind_speed w) \<and>
         field_float env kw ''relative_humidity_2m'' = Some (relative_humidity_2m w) \<and>
         field_int env kw ''is_day'' = Some (is_day w) \<and>
         field_int env kw ''weather_code'' = Some (weather_code w) \<and>
         field_str kw ''time'' = Some (time w)"
  using assms by (auto simp: CurrentWeather_def split: option.splits)

lemma CurrentWeather_missing:
  assumes "field_float env kw ''latitude'' = None \<or>
         field_float env kw ''longitude'' = None \<or>
         field_float env kw ''temperature'' = None \<or>
         field_float env kw ''wind_speed'' = None \<or>
         field_float env kw ''relative_humidity_2m'' = None \<or>
         field_int env kw ''is_day'' = None \<or>
         field_int env kw ''weather_code'' = None \<or>
         field_str kw ''time'' = None"
  shows "\<exists>errors. CurrentWeather env kw = Inl (ValidationError errors)"
  using assms by (auto simp: CurrentWeather_def split: option.splits)

lemma CurrentWeather_dump:
  "finite_floats env w \<Longrightarrow> parse_CurrentWeather env (dump_CurrentWeather env w) = Inr w"
  by (simp add: parse_CurrentWeather_def dump_CurrentWeather_def dump_float_def
      finite_floats_def CurrentWeather_def field_float_def field_int_def field_str_def
      validate_float_def validate_int_def validate_str_def)

lemma CurrentWeather_dump_null:
  assumes "\<not> finite_floats env w"
  shows "\<exists>errors. parse_CurrentWeather env (dump_CurrentWeather env w) = Inl (ValidationError errors)"
proof -
  let ?kw = "[(''latitude'', dump_float env (latitude w)),
       (''longitude'', dump_float env (longitude w)),
       (''temperature'', dump_float env (temperature w)),
       (''wind_speed'', dump_float env (wind_speed w)),
       (''relative_humidity_2m'', dump_float env (relative_humidity_2m w)),
       (''is_day'', JInt (is_day w)), (''weather_code'', JInt (weather_code w)),
       (''time'', JStr (time w))]"
  from assms have "field_float env ?kw ''latitude'' = None \<or>
         field_float env ?kw ''longitude'' = None \<or>
         field_float env ?kw ''temperature'' = None \<or>
         field_float env ?kw ''wind_speed'' = None \<or>
         field_float env ?kw ''relative_humidity_2m'' = None"
    by (auto simp: finite_floats_def dump_float_def field_float_def validate_float_def)
  then have "\<exists>errors. CurrentWeather env ?kw = Inl (ValidationError errors)"
    using CurrentWeather_missing [of env ?kw] by blast
  then show ?thesis
    by (simp add: parse_CurrentWeather_def dump_CurrentWeather_def)
qed

lemma try_thenE:
  assumes "try_then m f = Inr p"
  obtains x where "m = Inr x" "f x = Inr p"
  using assms by (cases m) simp_all

lemma except_clauses_Inr:
  "except_clauses env a b c d u e = Inr p \<Longrightarrow> \<exists>msg. p = error_payload msg"
  by (cases e) (auto simp: except_clauses_def split: if_splits)

lemma try_except_Inr:
  assumes "try_except body (except_clauses env a b c d u) = Inr p"
  shows "body = Inr p \<or> (\<exists>msg. p = error_payload msg)"
  using assms except_clauses_Inr [of env a b c d u _ p] by (cases body) auto

lemma py_in_JObj: "py_in k (JObj kvs) = Inr (map_of kvs k \<noteq> None)"
  by (simp add: py_in_def map_of_eq_None_iff)

lemma weather_cases:
  assumes "get_current_weather env fetch la lo = Inr p"
  shows "(\<exists>msg. p = error_payload msg) \<or>
         (\<exists>w te wi hu da co ti. p = dump_CurrentWeather env w \<and>
            CurrentWeather env
              [(''latitude'', JFloat la), (''longitude'', JFloat lo),
               (''temperature'', te), (''wind_speed'', wi),
               (''relative_humidity_2m'', hu), (''is_day'', da),
               (''weather_code'', co), (''time'', ti)] = Inr w)"
proof -
  from assms [unfolded get_current_weather_def] show ?thesis
    by (auto dest!: try_except_Inr elim!: try_thenE split: if_splits)
qed

lemma dump_CurrentWeather_not_error: "dump_CurrentWeather env w \<noteq> error_payload msg"
  by (simp add: dump_CurrentWeather_def error_payload_def)

lemma dump_float_finite:
  "float_finite env x \<Longrightarrow> dump_float env y = dump_float env x \<Longrightarrow> y = x"
  by (simp add: dump_float_def split: if_splits)

lemma dump_CurrentWeather_coordinates:
  assumes "dump_CurrentWeather env w = dump_CurrentWeather env w'"
    and "float_finite env (latitude w')" and "float_finite env (longitude w')"
  shows "latitude w = latitude w' \<and> longitude w = longitude w'"
  using assms by (simp add: dump_CurrentWeather_def dump_float_finite)

lemma sample_weather:
  "get_current_weather sample_env (\<lambda>r. Inr (london_forecast ula ulo)) 51.5074 (- 0.1278) =
     Inr (dump_CurrentWeather sample_env london_weather)"
  by (simp add: get_current_weather_def py_in_def py_getitem_def py_get_def py_get_default_def
      london_forecast_def london_members_def london_current_def london_weather_def
      CurrentWeather_def field_float_def field_int_def field_str_def validate_float_def
      validate_int_def validate_str_def sample_env_def)

lemma sample_weather_finite: "finite_floats sample_env london_weather"
  by (simp add: finite_floats_def sample_env_def)




text \<open>
  Claim C4, as the code has it, for a response that is a JSON object. Without a
  member \<^verbatim>\<open>current\<close> the tool returns the payload of missing data. When \<^verbatim>\<open>current\<close>
  is an object in which one of the six members the tool reads is absent or null, it
  returns the payload of a failed validation. Every payload that is not an error
  payload is the document of a Weather Snapshot, with the eight fields of
  \<open>dump_CurrentWeather\<close> (five floats, the day flag and the weather code as integers,
  the time as a string). It validates back to the same snapshot when the five floats
  are finite; otherwise a float is written as \<^verbatim>\<open>null\<close> and the validation of the
  payload fails.
\<close>

theorem weather_snapshot_or_error:
  assumes "fetch (weather_request la lo) = Inr (JObj d)"
  shows
  "(map_of d ''current'' = None \<longrightarrow>
      get_current_weather env fetch la lo =
        Inr (error_payload ''No current weather data available for this location.'')) \<and>
   (\<forall>cur. map_of d ''current'' = Some (JObj cur) \<and>
        list_ex (\<lambda>k. map_of cur k = None \<or> map_of cur k = Some JNull) upstream_fields \<longrightarrow>
      (\<exists>p. get_current_weather env fetch la lo = Inr p \<and> weather_schema_error p)) \<and>
   (\<forall>p. get_current_weather env fetch la lo = Inr p \<longrightarrow>
      (\<exists>msg. p = error_payload msg) \<or>
      (\<exists>w. p = dump_CurrentWeather env w \<and>
         (if finite_floats env w then parse_CurrentWeather env p = Inr w
          else \<exists>errors. parse_CurrentWeather env p = Inl (ValidationError errors))))"
proof (intro conjI allI impI)
  assume "map_of d ''current'' = None"
  with assms show "get_current_weather env fetch la lo =
        Inr (error_payload ''No current weather data available for this location.'')"
    by (simp add: get_current_weather_def py_in_JObj)
next
  fix cur
  assume a: "map_of d ''current'' = Some (JObj cur) \<and>
        list_ex (\<lambda>k. map_of cur k = None \<or> map_of cur k = Some JNull) upstream_fields"
  let ?kw = "[(''latitude'', JFloat la), (''longitude'', JFloat lo),
       (''temperature'', case map_of cur ''temperature_2m'' of None \<Rightarrow> JNull | Some v \<Rightarrow> v),
       (''wind_speed'', case map_of cur ''wind_speed_10m'' of None \<Rightarrow> JNull | Some v \<Rightarrow> v),
       (''relative_humidity_2m'', case map_of cur ''relative_humidity_2m'' of None \<Rightarrow> JNull | Some v \<Rightarrow> v),
       (''is_day'', case map_of cur ''is_day'' of None \<Rightarrow> JNull | Some v \<Rightarrow> v),
       (''weather_code'', case map_of cur ''weather_code'' of None \<Rightarrow> JNull | Some v \<Rightarrow> v),
       (''time'', case map_of cur ''time'' of None \<Rightarrow> JNull | Some v \<Rightarrow> v)]"
  from a have "field_float env ?kw ''temperature'' = None \<or>
         field_float env ?kw ''wind_speed'' = None \<or>
         field_float env ?kw ''relative_humidity_2m'' = None \<or>
         field_int env ?kw ''is_day'' = None \<or>
         field_int env ?kw ''weather_code'' = None \<or>
         field_str ?kw ''time'' = None"
    by (auto simp: upstream_fields_def field_float_def field_int_def field_str_def
        validate_float_def validate_int_def validate_str_def)
  then obtain errors where "CurrentWeather env ?kw = Inl (ValidationError errors)"
    using CurrentWeather_missing [of env ?kw] by blast
  with assms a have "get_current_weather env fetch la lo =
      Inr (error_payload (''Failed to validate weather data schema: '' @ errors))"
    by (simp add: get_current_weather_def py_in_JObj py_getitem_def py_get_def
        py_get_default_def except_clauses_def)
  then show "\<exists>p. get_current_weather env fetch la lo = Inr p \<and> weather_schema_error p"
    by (simp add: weather_schema_error_def error_payload_def)
next
  fix p assume "get_current_weather env fetch la lo = Inr p"
  from weather_cases [OF this]
  consider msg where "p = error_payload msg" | w where "p = dump_CurrentWeather env w"
    by blast
  then show "(\<exists>msg. p = error_payload msg) \<or>
      (\<exists>w. p = dump_CurrentWeather env w \<and>
         (if finite_floats env w then parse_CurrentWeather env p = Inr w
          else \<exists>errors. parse_CurrentWeather env p = Inl (ValidationError errors)))"
  proof cases
    case 1
    then show ?thesis by blast
  next
    case 2
    have "if finite_floats env w then parse_CurrentWeather env p = Inr w
          else \<exists>errors. parse_CurrentWeather env p = Inl (ValidationError errors)"
      using 2 CurrentWeather_dump [of env w] CurrentWeather_dump_null [of env w] by simp
    with 2 show ?thesis by blast
  qed
qed

text \<open>
  The statement at the forecast of the test suite, and at a response whose
  \<^verbatim>\<open>current\<close> object has the temperature only.
\<close>

theorem weather_snapshot_or_error_witness:
  "map_of (london_members 51.5074 (- 0.1278)) ''current'' = Some london_current \<and>
   get_current_weather sample_env (\<lambda>r. Inr (london_forecast 51.5074 (- 0.1278))) 51.5074 (- 0.1278) =
     Inr (dump_CurrentWeather sample_env london_weather) \<and>
   (\<exists>w. dump_CurrentWeather sample_env london_weather = dump_CurrentWeather sample_env w \<and>
        finite_floats sample_env w \<and>
        parse_CurrentWeather sample_env (dump_CurrentWeather sample_env london_weather) = Inr w) \<and>
   list_ex (\<lambda>k. map_of [(''temperature_2m'', JFloat (15.5 :: rat))] k = None) upstream_fields \<and>
   (\<exists>p. get_current_weather sample_env
       (\<lambda>r. Inr (JObj [(''current'', JObj [(''temperature_2m'', JFloat 15.5)])])) 51.5074 (- 0.1278) = Inr p \<and>
      weather_schema_error p)"
proof -
  have a: "get_current_weather sample_env (\<lambda>r. Inr (london_forecast 51.5074 (- 0.1278)))
      51.5074 (- 0.1278) = Inr (dump_CurrentWeather sample_env london_weather)"
    by (rule sample_weather)
  have h: "Inr (london_forecast 51.5074 (- 0.1278)) =
      (Inr (JObj (london_members 51.5074 (- 0.1278))) :: py_exc + rat json)"
    by (simp only: london_forecast_def)
  note t = weather_snapshot_or_error [of "\<lambda>r. Inr (london_forecast 51.5074 (- 0.1278))" "51.5074" "- 0.1278"
      "london_members 51.5074 (- 0.1278)" sample_env, OF h]
  from t a have "(\<exists>msg. dump_CurrentWeather sample_env london_weather = error_payload msg) \<or>
      (\<exists>w. dump_CurrentWeather sample_env london_weather = dump_CurrentWeather sample_env w \<and>
         (if finite_floats sample_env w
          then parse_CurrentWeather sample_env (dump_CurrentWeather sample_env london_weather) = Inr w
          else \<exists>errors. parse_CurrentWeather sample_env (dump_CurrentWeather sample_env london_weather) =
            Inl (ValidationError errors)))"
    by blast
  then obtain w where
    "dump_CurrentWeather sample_env london_weather = dump_CurrentWeather sample_env w"
    and "if finite_floats sample_env w
          then parse_CurrentWeather sample_env (dump_CurrentWeather sample_env london_weather) = Inr w
          else \<exists>errors. parse_CurrentWeather sample_env (dump_CurrentWeather sample_env london_weather) =
            Inl (ValidationError errors)"
    using dump_CurrentWeather_not_error by blast
  moreover have "finite_floats sample_env w"
    by (simp add: finite_floats_def sample_env_def)
  ultimately have b: "\<exists>w. dump_CurrentWeather sample_env london_weather = dump_CurrentWeather sample_env w \<and>
        finite_floats sample_env w \<and>
        parse_CurrentWeather sample_env (dump_CurrentWeather sample_env london_weather) = Inr w"
    by auto
  have c: "map_of (london_members 51.5074 (- 0.1278)) ''current'' = Some london_current"
    by (simp add: london_members_def)
  have m: "map_of [(''current'', JObj [(''temperature_2m'', JFloat (15.5 :: rat))])] ''current'' =
      Some (JObj [(''temperature_2m'', JFloat 15.5)])"
    by simp
  have e: "list_ex (\<lambda>k. map_of [(''temperature_2m'', JFloat (15.5 :: rat))] k = None) upstream_fields"
    by (simp add: upstream_fields_def)
  then have e': "list_ex (\<lambda>k. map_of [(''temperature_2m'', JFloat (15.5 :: rat))] k = None \<or>
      map_of [(''temperature_2m'', JFloat (15.5 :: rat))] k = Some JNull) upstream_fields"
    by (simp add: upstream_fields_def)
  note u = weather_snapshot_or_error [of "\<lambda>r. Inr (JObj [(''current'', JObj [(''temperature_2m'', JFloat 15.5)])])"
      "51.5074" "- 0.1278" "[(''current'', JObj [(''temperature_2m'', JFloat (15.5 :: rat))])]"
      sample_env, OF refl]
  from u m e' have f: "\<exists>p. get_current_weather sample_env
       (\<lambda>r. Inr (JObj [(''current'', JObj [(''temperature_2m'', JFloat 15.5)])])) 51.5074 (- 0.1278) = Inr p \<and>
      weather_schema_error p"
    by blast
  from a b c e f show ?thesis by blast
qed

text \<open>
  Claim C4 as stated fails. A response without any of the fields gives the payload
  of missing data, which is not the payload of a failed validation. A successful call
  gives the day flag as the integer 1 even when the service sends the boolean
  \<^verbatim>\<open>true\<close>, and passes on a time that is not a timestamp. A successful call on a
  response whose temperature is \<^verbatim>\<open>1e400\<close> gives a payload with the temperature
  \<^verbatim>\<open>null\<close>, which does not validate back.
\<close>

theorem weather_no_data_is_not_schema_error:
  "get_current_weather sample_env (\<lambda>r. Inr (JObj [])) 51.5074 (- 0.1278) =
     Inr (error_payload ''No current weather data available for this location.'') \<and>
   \<not> weather_schema_error
       (error_payload ''No current weather data available for this location.'' :: rat json) \<and>
   get_current_weather sample_env
     (\<lambda>r. Inr (JObj [(''current'',
        JObj [(''temperature_2m'', JFloat 15.5), (''wind_speed_10m'', JFloat 12.3),
              (''relative_humidity_2m'', JInt 75), (''is_day'', JBool True),
              (''weather_code'', JInt 3), (''time'', JStr ''not a timestamp'')])]))
     51.5074 (- 0.1278) =
     Inr (JObj [(''latitude'', JFloat 51.5074), (''longitude'', JFloat (- 0.1278)),
           (''temperature'', JFloat 15.5), (''wind_speed'', JFloat 12.3),
           (''relative_humidity_2m'', JFloat 75),
           (''is_day'', JInt 1), (''weather_code'', JInt 3),
           (''time'', JStr ''not a timestamp'')]) \<and>
   get_current_weather ieee_env (\<lambda>r. Inr (JObj [(''current'', overflow_current)]))
     (Finite 51.5074) (Finite (- 0.1278)) = Inr overflow_payload \<and>
   parse_CurrentWeather ieee_env overflow_payload = Inl (ValidationError ''<errors>'')"
proof -
  have "get_current_weather sample_env (\<lambda>r. Inr (JObj [])) 51.5074 (- 0.1278) =
     Inr (error_payload ''No current weather data available for this location.'')"
    by (simp add: get_current_weather_def py_in_def)
  moreover have "\<not> weather_schema_error
       (error_payload ''No current weather data available for this location.'' :: rat json)"
    by (simp add: error_payload_def weather_schema_error_def)
  moreover have "get_current_weather sample_env
     (\<lambda>r. Inr (JObj [(''current'',
        JObj [(''temperature_2m'', JFloat 15.5), (''wind_speed_10m'', JFloat 12.3),
              (''relative_humidity_2m'', JInt 75), (''is_day'', JBool True),
              (''weather_code'', JInt 3), (''time'', JStr ''not a timestamp'')])]))
     51.5074 (- 0.1278) =
     Inr (JObj [(''latitude'', JFloat 51.5074), (''longitude'', JFloat (- 0.1278)),
           (''temperature'', JFloat 15.5), (''wind_speed'', JFloat 12.3),
           (''relative_humidity_2m'', JFloat 75),
           (''is_day'', JInt 1), (''weather_code'', JInt 3),
           (''time'', JStr ''not a timestamp'')])"
    by (simp add: get_current_weather_def py_in_def py_getitem_def py_get_def py_get_default_def
        CurrentWeather_def dump_CurrentWeather_def dump_float_def
        field_float_def field_int_def field_str_def validate_float_def validate_int_def
        validate_str_def sample_env_def)
  moreover have "get_current_weather ieee_env (\<lambda>r. Inr (JObj [(''current'', overflow_current)]))
     (Finite 51.5074) (Finite (- 0.1278)) = Inr overflow_payload"
    by (simp add: get_current_weather_def py_in_def py_getitem_def py_get_def py_get_default_def
        CurrentWeather_def dump_CurrentWeather_def dump_float_def overflow_current_def
        overflow_payload_def
        field_float_def field_int_def field_str_def validate_float_def validate_int_def
        validate_str_def ieee_env_def)
  moreover have "parse_CurrentWeather ieee_env overflow_payload = Inl (ValidationError ''<errors>'')"
    by (simp add: parse_CurrentWeather_def overflow_payload_def CurrentWeather_def
        field_float_def field_int_def field_str_def validate_float_def validate_int_def
        validate_str_def ieee_env_def)
  ultimately show ?thesis by blast
qed

text \<open>
  Claim C5. When the decoded response of the geocoding service is an object whose
  \<^verbatim>\<open>results\<close> member is absent, null or the empty list, the tool returns the payload
  \<^verbatim>\<open>{"error": "Could not find coordinates for city: <city_name>"}\<close>, whose message
  contains \<^verbatim>\<open>Could not find coordinates\<close>, and raises nothing.
\<close>

theorem city_not_found_payload:
  assumes "fetch (geocoding_request city_name) = Inr (JObj d)"
    and "map_of d ''results'' = None \<or> map_of d ''results'' = Some JNull \<or>
         map_of d ''results'' = Some (JArr [])"
  shows "get_coordinates_from_city env fetch city_name =
           Inr (error_payload (''Could not find coordinates for city: '' @ city_name)) \<and>
         contains_sub ''Could not find coordinates''
           (''Could not find coordinates for city: '' @ city_name)"
  using assms
  by (auto simp: get_coordinates_from_city_def py_get_def py_get_default_def py_truthy_def)

text \<open>The statement at the city \<^verbatim>\<open>imaginary_city_123\<close> of the test suite.\<close>

theorem city_not_found_payload_witness:
  "map_of no_results ''results'' = Some (JArr []) \<and>
   get_coordinates_from_city sample_env (\<lambda>r. Inr (JObj no_results)) ''imaginary_city_123'' =
     Inr (JObj [(''error'', JStr ''Could not find coordinates for city: imaginary_city_123'')]) \<and>
   contains_sub ''Could not find coordinates''
     ''Could not find coordinates for city: imaginary_city_123''"
proof -
  have h: "map_of no_results ''results'' = Some (JArr [])"
    by (simp add: no_results_def)
  then have "map_of no_results ''results'' = None \<or> map_of no_results ''results'' = Some JNull \<or>
         map_of no_results ''results'' = Some (JArr [])"
    by simp
  from city_not_found_payload [of "\<lambda>r. Inr (JObj no_results)" "''imaginary_city_123''" no_results sample_env,
      OF refl this] h
  show ?thesis by (simp add: error_payload_def)
qed

text \<open>
  Claim C6. When the response of the encyclopedia has no \<^verbatim>\<open>query\<close> member, or its
  \<^verbatim>\<open>query\<close> object has no page entries (\<^verbatim>\<open>pages\<close> absent or empty), or the first
  page is an object with a member \<^verbatim>\<open>missing\<close>, the tool returns an error payload whose
  message contains \<^verbatim>\<open>No Wikipedia article found\<close> up to letter case.
\<close>

theorem wikipedia_not_found_payload:
  assumes "fetch (wikipedia_request query) = Inr (JObj d)"
    and "map_of d ''query'' = None \<or>
         (\<exists>q. map_of d ''query'' = Some (JObj q) \<and>
            (map_of q ''pages'' = None \<or> map_of q ''pages'' = Some (JObj []) \<or>
             (\<exists>page_id page rest.
                map_of q ''pages'' = Some (JObj ((page_id, JObj page) # rest)) \<and>
                ''missing'' \<in> set (map fst page))))"
  shows "\<exists>msg. search_wikipedia env fetch query = Inr (error_payload msg) \<and>
           contains_sub (lower ''No Wikipedia article found'') (lower msg)"
proof -
  have a: "contains_sub (lower ''No Wikipedia article found'')
             (lower ''No wikipedia article found for the query'')"
    by code_simp
  have b: "contains_sub (lower ''No Wikipedia article found'')
             (lower ''No wikipedia article found the query'')"
    by code_simp
  note defs = search_wikipedia_def py_get_default_def py_truthy_def py_first_def
    py_getitem_def py_in_def
  from assms(2) have "search_wikipedia env fetch query =
      Inr (error_payload ''No wikipedia article found for the query'') \<or>
    search_wikipedia env fetch query =
      Inr (error_payload ''No wikipedia article found the query'')"
  proof (elim disjE exE conjE)
    assume "map_of d ''query'' = None"
    with assms(1) show ?thesis by (simp add: defs)
  next
    fix q assume "map_of d ''query'' = Some (JObj q)" "map_of q ''pages'' = None"
    with assms(1) show ?thesis by (simp add: defs)
  next
    fix q assume "map_of d ''query'' = Some (JObj q)" "map_of q ''pages'' = Some (JObj [])"
    with assms(1) show ?thesis by (simp add: defs)
  next
    fix q page_id page rest
    assume "map_of d ''query'' = Some (JObj q)"
      "map_of q ''pages'' = Some (JObj ((page_id, JObj page) # rest))"
      "''missing'' \<in> set (map fst page)"
    with assms(1) show ?thesis by (simp add: defs)
  qed
  with a b show ?thesis by blast
qed

text \<open>The statement at the response for a missing page of the test suite.\<close>

theorem wikipedia_not_found_payload_witness:
  "map_of missing_page ''query'' =
     Some (JObj [(''pages'', JObj [(''-1'', JObj [(''missing'', JStr [])])])]) \<and>
   ''missing'' \<in> set (map fst [(''missing'', JStr [] :: rat json)]) \<and>
   search_wikipedia sample_env (\<lambda>r. Inr (JObj missing_page)) ''Zorp the Destroyer'' =
     Inr (error_payload ''No wikipedia article found the query'') \<and>
   (\<exists>msg. search_wikipedia sample_env (\<lambda>r. Inr (JObj missing_page)) ''Zorp the Destroyer'' =
       Inr (error_payload msg) \<and>
     contains_sub (lower ''No Wikipedia article found'') (lower msg))"
proof -
  have h: "map_of missing_page ''query'' =
     Some (JObj [(''pages'', JObj [(''-1'', JObj [(''missing'', JStr [])])])])"
    by (simp add: missing_page_def)
  have m: "''missing'' \<in> set (map fst [(''missing'', JStr [] :: rat json)])"
    by simp
  from h m have "map_of missing_page ''query'' = None \<or>
         (\<exists>q. map_of missing_page ''query'' = Some (JObj q) \<and>
            (map_of q ''pages'' = None \<or> map_of q ''pages'' = Some (JObj []) \<or>
             (\<exists>page_id page rest.
                map_of q ''pages'' = Some (JObj ((page_id, JObj page) # rest)) \<and>
                ''missing'' \<in> set (map fst page))))"
    by simp
  from wikipedia_not_found_payload [of "\<lambda>r. Inr (JObj missing_page)" "''Zorp the Destroyer''" missing_page sample_env,
      OF refl this]
  have e: "\<exists>msg. search_wikipedia sample_env (\<lambda>r. Inr (JObj missing_page)) ''Zorp the Destroyer'' =
       Inr (error_payload msg) \<and>
     contains_sub (lower ''No Wikipedia article found'') (lower msg)" .
  have "search_wikipedia sample_env (\<lambda>r. Inr (JObj missing_page)) ''Zorp the Destroyer'' =
     Inr (error_payload ''No wikipedia article found the query'')"
    by (simp add: search_wikipedia_def missing_page_def py_get_default_def py_truthy_def
        py_first_def py_getitem_def py_in_def)
  with h m e show ?thesis by blast
qed






text \<open>
  Claim C10. The latitude and the longitude of a Weather Snapshot that
  \<^verbatim>\<open>get_current_weather\<close> returns are its arguments, and the result depends on the
  response through its member \<^verbatim>\<open>current\<close> only: coordinates that the service
  reports are ignored. Every payload that is not an error payload is the document of
  a snapshot with the arguments as coordinates; for finite arguments, which the
  document shows as they are, every snapshot with that document has them.
\<close>

theorem weather_coordinates_are_the_arguments:
  "(\<forall>p. get_current_weather env fetch la lo = Inr p \<longrightarrow>
        (\<exists>msg. p = error_payload msg) \<or>
        (\<exists>w. p = dump_CurrentWeather env w \<and> latitude w = la \<and> longitude w = lo)) \<and>
   (\<forall>w. float_finite env la \<and> float_finite env lo \<and>
        get_current_weather env fetch la lo = Inr (dump_CurrentWeather env w) \<longrightarrow>
        latitude w = la \<and> longitude w = lo) \<and>
   (\<forall>d d'. fetch (weather_request la lo) = Inr (JObj d) \<and>
        fetch' (weather_request la lo) = Inr (JObj d') \<and>
        map_of d ''current'' = map_of d' ''current'' \<longrightarrow>
        get_current_weather env fetch la lo = get_current_weather env fetch' la lo)"
proof -
  have snapshot: "(\<exists>msg. p = error_payload msg) \<or>
        (\<exists>w. p = dump_CurrentWeather env w \<and> latitude w = la \<and> longitude w = lo)"
    if "get_current_weather env fetch la lo = Inr p" for p
  proof -
    from weather_cases [OF that]
    consider msg where "p = error_payload msg"
      | w te wi hu da co ti where "p = dump_CurrentWeather env w"
          and "CurrentWeather env
              [(''latitude'', JFloat la), (''longitude'', JFloat lo),
               (''temperature'', te), (''wind_speed'', wi),
               (''relative_humidity_2m'', hu), (''is_day'', da),
               (''weather_code'', co), (''time'', ti)] = Inr w"
      by blast
    then show ?thesis
    proof cases
      case 1
      then show ?thesis by blast
    next
      case 2
      from CurrentWeather_Inr [OF 2(2)] have "latitude w = la \<and> longitude w = lo"
        by (simp add: field_float_def validate_float_def)
      with 2(1) show ?thesis by blast
    qed
  qed
  have finite: "latitude w = la \<and> longitude w = lo"
    if "float_finite env la \<and> float_finite env lo \<and>
        get_current_weather env fetch la lo = Inr (dump_CurrentWeather env w)" for w
  proof -
    from that snapshot [of "dump_CurrentWeather env w"] obtain w' where
      "dump_CurrentWeather env w = dump_CurrentWeather env w'"
      and "latitude w' = la" and "longitude w' = lo"
      using dump_CurrentWeather_not_error [of env w] by blast
    with that dump_CurrentWeather_coordinates [of env w w'] show ?thesis by simp
  qed
  have "get_current_weather env fetch la lo = get_current_weather env fetch' la lo"
    if "fetch (weather_request la lo) = Inr (JObj d) \<and>
        fetch' (weather_request la lo) = Inr (JObj d') \<and>
        map_of d ''current'' = map_of d' ''current''" for d d'
    using that by (simp add: get_current_weather_def py_in_JObj py_getitem_def)
  with snapshot finite show ?thesis by blast
qed

text \<open>
  The statement at the forecast of the test suite, for a service that reports the
  coordinates of its grid cell and one that reports zeros.
\<close>

theorem weather_coordinates_are_the_arguments_witness:
  "get_current_weather sample_env (\<lambda>r. Inr (london_forecast 51.5 (- 0.12))) 51.5074 (- 0.1278) =
     Inr (dump_CurrentWeather sample_env london_weather) \<and>
   float_finite sample_env 51.5074 \<and> float_finite sample_env (- 0.1278) \<and>
   latitude london_weather = 51.5074 \<and> longitude london_weather = - 0.1278 \<and>
   map_of (london_members 51.5 (- 0.12)) ''current'' = map_of (london_members 0 0) ''current'' \<and>
   get_current_weather sample_env (\<lambda>r. Inr (london_forecast 51.5 (- 0.12))) 51.5074 (- 0.1278) =
   get_current_weather sample_env (\<lambda>r. Inr (london_forecast 0 0)) 51.5074 (- 0.1278)"
proof -
  note t = weather_coordinates_are_the_arguments [of sample_env "\<lambda>r. Inr (london_forecast 51.5 (- 0.12))" "51.5074" "- 0.1278"
      "\<lambda>r. Inr (london_forecast 0 0)"]
  have a: "get_current_weather sample_env (\<lambda>r. Inr (london_forecast 51.5 (- 0.12)))
      51.5074 (- 0.1278) = Inr (dump_CurrentWeather sample_env london_weather)"
    by (rule sample_weather)
  have f: "float_finite sample_env 51.5074 \<and> float_finite sample_env (- 0.1278)"
    by (simp add: sample_env_def)
  with t a have b: "latitude london_weather = 51.5074 \<and> longitude london_weather = - 0.1278"
    by blast
  have c: "map_of (london_members 51.5 (- 0.12)) ''current'' =
      map_of (london_members 0 0) ''current''"
    by (simp add: london_members_def)
  have "Inr (london_forecast 51.5 (- 0.12)) = (Inr (JObj (london_members 51.5 (- 0.12))) :: py_exc + rat json)"
    and "Inr (london_forecast 0 0) = (Inr (JObj (london_members 0 0)) :: py_exc + rat json)"
    by (simp_all only: london_forecast_def)
  with t c have d: "get_current_weather sample_env (\<lambda>r. Inr (london_forecast 51.5 (- 0.12)))
      51.5074 (- 0.1278) =
    get_current_weather sample_env (\<lambda>r. Inr (london_forecast 0 0)) 51.5074 (- 0.1278)"
    by blast
  from a f b c d show ?thesis by blast
qed

section \<open>Properties of the agent\<close>

lemma all_answered_append:
  "all_answered xs \<Longrightarrow> all_answered ys \<Longrightarrow> all_answered (xs @ ys)"
proof (induction xs rule: all_answered.induct)
  case (2 c tcs rest)
  then show ?case by (auto simp: list_all_iff list_ex_iff)
qed simp_all

lemma run_tools_answered:
  assumes "run_tools agent tcs = Inr ms"
  shows "list_all (\<lambda>tc. list_ex (answers tc) ms) tcs"
    and "all_answered ms"
    and "list_all (\<lambda>m. \<not> is_final_answer m) ms"
  using assms
proof (induction tcs arbitrary: ms)
  case Nil
  { case 1 then show ?case by simp }
  { case 2 then show ?case by simp }
  { case 3 then show ?case by simp }
next
  case (Cons tc tcs)
  { case 1 with Cons.IH(1) show ?case
      by (auto split: sum.splits simp: list_all_iff list_ex_iff) }
  { case 2 with Cons.IH(2) show ?case by (auto split: sum.splits) }
  { case 3 with Cons.IH(3) show ?case by (auto split: sum.splits) }
qed

lemma all_answered_request:
  assumes "all_answered pre" and "list_all (\<lambda>tc. list_ex (answers tc) ms) tcs"
    and "all_answered ms"
  shows "all_answered (pre @ AIMessage c tcs # ms)"
  using assms by (intro all_answered_append) simp_all

text \<open>
  The state of the graph before a node runs: no message of the transcript is a final
  answer; before the model runs every request is answered, and before the tools run
  the last message is a model message with requests and every earlier request is
  answered.
\<close>

lemma run_graph_invariant:
  assumes "run_graph agent n nd messages = (chunks, out, final)"
    and "messages \<noteq> []"
    and "list_all (\<lambda>m. \<not> is_final_answer m) messages"
    and "nd = Agent \<Longrightarrow> all_answered messages"
    and "nd = Tools \<Longrightarrow>
           \<exists>pre c tcs. messages = pre @ [AIMessage c tcs] \<and> tcs \<noteq> [] \<and> all_answered pre"
  shows "final \<noteq> [] \<and> length chunks \<le> n \<and>
         (out = None \<longleftrightarrow> is_final_answer (last final) \<and> length chunks < n) \<and>
         (is_final_answer (last final) \<longrightarrow> all_answered final \<and>
            list_all (\<lambda>m. \<not> is_final_answer m) (butlast final))"
  using assms
proof (induction n arbitrary: nd messages chunks out final)
  case 0
  then have "final = messages" "out \<noteq> None" "chunks = []" by auto
  with "0.prems"(2,3) show ?case by (auto simp: list_all_iff)
next
  case (Suc n)
  show ?case
  proof (cases nd)
    case Agent
    show ?thesis
    proof (cases "llm_with_tools agent messages")
      case (Inl e)
      with Suc.prems(1) Agent have "final = messages" "out \<noteq> None" "chunks = []"
        by (auto simp: call_model_def)
      with Suc.prems(2,3) show ?thesis by (auto simp: list_all_iff)
    next
      case (Inr r)
      obtain c tcs where r: "r = (c, tcs)" by (cases r)
      show ?thesis
      proof (cases "tcs = []")
        case True
        with Suc.prems(1) Agent Inr r
        have "final = messages @ [AIMessage c []]" "out = None \<longleftrightarrow> n \<noteq> 0"
          "length chunks = 1"
          by (auto simp: call_model_def should_continue_def add_messages_def
              split: if_splits)
        moreover have "all_answered (messages @ [AIMessage c []])"
          using Suc.prems(4) Agent by (intro all_answered_append) simp_all
        ultimately show ?thesis using Suc.prems(3) by auto
      next
        case False
        let ?ms = "messages @ [AIMessage c tcs]"
        obtain cs where run: "run_graph agent n Tools ?ms = (cs, out, final)"
          and cs: "length chunks = Suc (length cs)"
          using Suc.prems(1) Agent Inr r False
          by (auto simp: call_model_def should_continue_def add_messages_def
              split: prod.splits)
        have "list_all (\<lambda>m. \<not> is_final_answer m) ?ms"
          using Suc.prems(3) False by simp
        moreover have "\<exists>pre c' tcs'. ?ms = pre @ [AIMessage c' tcs'] \<and> tcs' \<noteq> [] \<and>
            all_answered pre"
          using Suc.prems(4) Agent False by blast
        ultimately show ?thesis
          using Suc.IH [OF run] cs by simp
      qed
    qed
  next
    case Tools
    with Suc.prems(5) obtain pre c tcs where
      m: "messages = pre @ [AIMessage c tcs]" "tcs \<noteq> []" "all_answered pre"
      by blast
    show ?thesis
    proof (cases "run_tools agent tcs")
      case (Inl e)
      with Suc.prems(1) Tools m have "final = messages" "out \<noteq> None" "chunks = []"
        by (auto simp: tool_node_def)
      with Suc.prems(2,3) show ?thesis by (auto simp: list_all_iff)
    next
      case (Inr ms)
      obtain cs where run: "run_graph agent n Agent (messages @ ms) = (cs, out, final)"
        and cs: "length chunks = Suc (length cs)"
        using Suc.prems(1) Tools m Inr
        by (auto simp: tool_node_def add_messages_def split: prod.splits)
      have "all_answered (messages @ ms)"
        using all_answered_request [OF m(3) run_tools_answered(1,2) [OF Inr], of c] m(1)
        by simp
      moreover have "list_all (\<lambda>m. \<not> is_final_answer m) (messages @ ms)"
        using Suc.prems(3) run_tools_answered(3) [OF Inr] by simp
      ultimately show ?thesis
        using Suc.IH [OF run] Suc.prems(2) cs by simp
    qed
  qed
qed

lemma run_graph_chunks:
  assumes "run_graph agent n nd messages = (chunks, out, final)"
  shows "final = messages @ concat (map chunk_messages chunks) \<and>
         list_all (\<lambda>s. \<not> is_end_chunk s) chunks"
  using assms
proof (induction agent n nd messages arbitrary: chunks out final rule: run_graph.induct)
  case (1 agent nd messages)
  then show ?case by simp
next
  case (2 agent n messages)
  then show ?case
    by (auto simp: add_messages_def split: sum.splits edge.splits prod.splits)
next
  case (3 agent n messages)
  then show ?case
    by (auto simp: add_messages_def split: sum.splits prod.splits)
qed

lemma run_graph_last_chunk:
  assumes "run_graph agent n nd messages = (chunks, None, final)"
  shows "\<exists>c. chunks \<noteq> [] \<and> last chunks = AgentChunk [AIMessage c []] \<and>
             final \<noteq> [] \<and> last final = AIMessage c []"
  using assms
proof (induction agent n nd messages arbitrary: chunks final rule: run_graph.induct)
  case (1 agent nd messages)
  then show ?case by simp
next
  case (2 agent n messages)
  then show ?case
    by (auto simp: add_messages_def call_model_def should_continue_def
        split: sum.splits edge.splits prod.splits if_splits)
next
  case (3 agent n messages)
  then show ?case
    by (auto simp: add_messages_def split: sum.splits prod.splits)
qed

text \<open>
  Claim C2, as the code has it. A run of the graph on a query with the step limit
  \<open>n\<close> streams at most \<open>n\<close> chunks, one for each node that ran. It ends without an
  exception exactly when the last message of the transcript is a response of the
  model without tool calls and fewer than \<open>n\<close> nodes have run. Whenever the last
  message is such a response, every tool call of the transcript has a tool message
  that answers it later in the transcript, and no earlier message is such a response:
  the graph runs no node after the first one.
\<close>

theorem control_loop_answers_every_request:
  assumes "run_graph agent n Agent [HumanMessage query] = (chunks, out, final)"
  shows "final \<noteq> [] \<and> length chunks \<le> n \<and>
         (out = None \<longleftrightarrow> is_final_answer (last final) \<and> length chunks < n) \<and>
         (is_final_answer (last final) \<longrightarrow> all_answered final \<and>
            list_all (\<lambda>m. \<not> is_final_answer m) (butlast final))"
  by (rule run_graph_invariant [OF assms]) simp_all

text \<open>The statement at the run of the calculator test.\<close>

theorem control_loop_answers_every_request_witness:
  "run_graph sample_agent 25 Agent [HumanMessage ''What is 10 + 5 * 2?''] =
     ([AgentChunk [AIMessage [] [\<lparr>tc_name = ''calculate'', tc_args = ''10 + 5 * 2'', tc_id = ''call_1''\<rparr>]],
       ToolsChunk [ToolMessage ''20'' ''calculate'' ''call_1''],
       AgentChunk [AIMessage ''The result is 20.'' []]],
      None,
      [HumanMessage ''What is 10 + 5 * 2?'',
       AIMessage [] [\<lparr>tc_name = ''calculate'', tc_args = ''10 + 5 * 2'', tc_id = ''call_1''\<rparr>],
       ToolMessage ''20'' ''calculate'' ''call_1'',
       AIMessage ''The result is 20.'' []]) \<and>
   is_final_answer (AIMessage ''The result is 20.'' [] :: string message) \<and>
   all_answered
      [HumanMessage ''What is 10 + 5 * 2?'',
       AIMessage [] [\<lparr>tc_name = ''calculate'', tc_args = ''10 + 5 * 2'', tc_id = ''call_1''\<rparr>],
       ToolMessage ''20'' ''calculate'' ''call_1'',
       AIMessage ''The result is 20.'' []]"
proof -
  have r: "run_graph sample_agent 25 Agent [HumanMessage ''What is 10 + 5 * 2?''] =
     ([AgentChunk [AIMessage [] [\<lparr>tc_name = ''calculate'', tc_args = ''10 + 5 * 2'', tc_id = ''call_1''\<rparr>]],
       ToolsChunk [ToolMessage ''20'' ''calculate'' ''call_1''],
       AgentChunk [AIMessage ''The result is 20.'' []]],
      None,
      [HumanMessage ''What is 10 + 5 * 2?'',
       AIMessage [] [\<lparr>tc_name = ''calculate'', tc_args = ''10 + 5 * 2'', tc_id = ''call_1''\<rparr>],
       ToolMessage ''20'' ''calculate'' ''call_1'',
       AIMessage ''The result is 20.'' []])"
    by code_simp
  from control_loop_answers_every_request [OF r] r show ?thesis by simp
qed

text \<open>
  Claim C2 as stated fails. When the model answers on the step that is the step
  limit of the graph (25 unless configured), its latest response carries no tool
  call and every request is answered, the stream has yielded the chunk with the
  answer, and yet the run raises \<^verbatim>\<open>GraphRecursionError\<close>: \<^verbatim>\<open>run_query\<close> returns no
  answer.
\<close>

theorem answer_at_the_step_limit_is_not_returned:
  "recursion_limit looping_agent = 25 \<and>
   length (fst (run_graph looping_agent 25 Agent [HumanMessage ''What is 1 + 1?''])) = 25 \<and>
   last (fst (run_graph looping_agent 25 Agent [HumanMessage ''What is 1 + 1?''])) =
     AgentChunk [AIMessage ''The result is 2.'' []] \<and>
   last (snd (snd (run_graph looping_agent 25 Agent [HumanMessage ''What is 1 + 1?'']))) =
     AIMessage ''The result is 2.'' [] \<and>
   is_final_answer (AIMessage ''The result is 2.'' [] :: string message) \<and>
   all_answered (snd (snd (run_graph looping_agent 25 Agent [HumanMessage ''What is 1 + 1?'']))) \<and>
   fst (snd (run_graph looping_agent 25 Agent [HumanMessage ''What is 1 + 1?''])) =
     Some (OtherException ''GraphRecursionError'') \<and>
   run_query looping_agent ''What is 1 + 1?'' = Inl (OtherException ''GraphRecursionError'')"
  by code_simp

text \<open>
  Claim C8. \<^verbatim>\<open>run_query\<close> returns the text of the last message of the last chunk
  that \<^verbatim>\<open>stream_query\<close> yields, and raises what the stream raises. The stream yields
  the update of every node that ran, so that the transcript is the query followed by
  the messages of the chunks, with the chunk of the final state at the end where the
  library emits it.
\<close>

theorem run_query_agrees_with_stream_query:
  "run_query agent query =
     (case stream_query agent query of
        (chunks, None) \<Rightarrow> Inr (content (last (chunk_messages (last chunks))))
      | (chunks, Some e) \<Rightarrow> Inl e) \<and>
   (\<forall>chunks out final.
      run_graph agent (recursion_limit agent) Agent [HumanMessage query] = (chunks, out, final) \<longrightarrow>
      final = HumanMessage query # concat (map chunk_messages chunks) \<and>
      fst (stream_query agent query) =
        (if emits_end agent \<and> out = None then chunks @ [EndChunk final] else chunks))"
proof -
  obtain chunks out final where
    r: "run_graph agent (recursion_limit agent) Agent [HumanMessage query] = (chunks, out, final)"
    by (cases "run_graph agent (recursion_limit agent) Agent [HumanMessage query]")
  note c = run_graph_chunks [OF r]
  have 1: "run_query agent query =
     (case stream_query agent query of
        (chunks, None) \<Rightarrow> Inr (content (last (chunk_messages (last chunks))))
      | (chunks, Some e) \<Rightarrow> Inl e)"
  proof (cases out)
    case (Some e)
    with r show ?thesis by (simp add: run_query_def stream_query_def astream_def)
  next
    case None
    with r run_graph_last_chunk [of agent "recursion_limit agent" Agent "[HumanMessage query]" chunks final]
    obtain c where l: "chunks \<noteq> []" "last chunks = AgentChunk [AIMessage c []]"
      "final \<noteq> []" "last final = AIMessage c []"
      by auto
    from c have f: "filter (\<lambda>s. \<not> is_end_chunk s) chunks = chunks"
      by (simp add: list_all_iff)
    from r None l f show ?thesis
      by (simp add: run_query_def stream_query_def astream_def)
  qed
  from r c have 2: "\<forall>chunks' out' final'.
      run_graph agent (recursion_limit agent) Agent [HumanMessage query] = (chunks', out', final') \<longrightarrow>
      final' = HumanMessage query # concat (map chunk_messages chunks') \<and>
      fst (stream_query agent query) =
        (if emits_end agent \<and> out' = None then chunks' @ [EndChunk final'] else chunks')"
    by (simp add: stream_query_def astream_def)
  from 1 2 show ?thesis by blast
qed

text \<open>The statement at the run of the calculator test.\<close>

theorem run_query_agrees_with_stream_query_witness:
  "stream_query sample_agent ''What is 10 + 5 * 2?'' =
     ([AgentChunk [AIMessage [] [\<lparr>tc_name = ''calculate'', tc_args = ''10 + 5 * 2'', tc_id = ''call_1''\<rparr>]],
       ToolsChunk [ToolMessage ''20'' ''calculate'' ''call_1''],
       AgentChunk [AIMessage ''The result is 20.'' []]], None) \<and>
   run_query sample_agent ''What is 10 + 5 * 2?'' = Inr ''The result is 20.''"
proof -
  have s: "stream_query sample_agent ''What is 10 + 5 * 2?'' =
     ([AgentChunk [AIMessage [] [\<lparr>tc_name = ''calculate'', tc_args = ''10 + 5 * 2'', tc_id = ''call_1''\<rparr>]],
       ToolsChunk [ToolMessage ''20'' ''calculate'' ''call_1''],
       AgentChunk [AIMessage ''The result is 20.'' []]], None)"
    by code_simp
  from run_query_agrees_with_stream_query [of sample_agent "''What is 10 + 5 * 2?''"] s show ?thesis by simp
qed

section \<open>Properties of the calculate tool\<close>

text \<open>
  Claim C7. \<^verbatim>\<open>calculate("10 + 5 * 2")\<close> returns the text \<^verbatim>\<open>20\<close>: the expression is read
  as the sum of 10 and the product of 5 and 2, multiplication binding tighter than
  addition.
\<close>

theorem calculate_precedence:
  "calculate env ''10 + 5 * 2'' = Some (Inr ''20'') \<and>
   parse ''10 + 5 * 2'' = Some (Bin Add (Num 10) (Bin Mul (Num 5) (Num 2)))"
  by code_simp




end
